theory Spec2Isabelle
  imports Main
begin

section \<open>Python's regular expressions, as far as the extractor uses them\<close>

text \<open>
  The extractor classes of \<^verbatim>\<open>youtube_dl/extractor/arte.py\<close> decide which URL they
  handle with \<^verbatim>\<open>re.match\<close> on a \<^verbatim>\<open>_VALID_URL\<close> pattern and read the named groups of
  the match. The patterns are embedded as values of the datatype \<open>re\<close> and run by a
  backtracking matcher that returns every way a pattern can match at the current
  position, in the order Python's engine tries them: the head of the list is the match
  Python reports.

  Strings are lists of 8-bit characters: a Python \<^verbatim>\<open>str\<close> whose code points are below
  256, one \<open>char\<close> for each. The classes \<^verbatim>\<open>\d\<close>, \<^verbatim>\<open>\w\<close> and \<^verbatim>\<open>\s\<close> are the ones Python 3
  gives a \<^verbatim>\<open>str\<close> pattern on that range.
\<close>

definition is_digit :: "char \<Rightarrow> bool" where
  "is_digit c = (c \<in> set ''0123456789'')"

definition is_word :: "char \<Rightarrow> bool" where
  "is_word c =
     (c \<in> set ''abcdefghijklmnopqrstuvwxyzABCDEFGHIJKLMNOPQRSTUVWXYZ0123456789_'' \<or>
      (let n = (of_char c :: nat)
       in n \<in> set [170, 178, 179, 181, 185, 186, 188, 189, 190] \<or>
          (192 \<le> n \<and> n \<noteq> 215 \<and> n \<noteq> 247)))"

definition is_space :: "char \<Rightarrow> bool" where
  "is_space c = ((of_char c :: nat) \<in> set [9, 10, 11, 12, 13, 28, 29, 30, 31, 32, 133, 160])"

datatype cclass = Digit | WordC | SpaceC | Ch char

fun in_class :: "cclass \<Rightarrow> char \<Rightarrow> bool" where
  "in_class Digit c = is_digit c"
| "in_class WordC c = is_word c"
| "in_class SpaceC c = is_space c"
| "in_class (Ch d) c = (c = d)"

datatype re =
    Lit string
  | In "cclass list"
  | NotIn "cclass list"
  | Dot
  | Seq re re
  | Alt re re
  | Star re
  | LazyStar re
  | Group string re
  | Backref string
  | WordB
  | Eos

text \<open>
  A matcher state: the character before the current position (for \<^verbatim>\<open>\b\<close>), the text
  still to be matched, and the groups captured so far, latest first.
\<close>

type_synonym mstate = "char option \<times> string \<times> (string \<times> string) list"

definition rest :: "mstate \<Rightarrow> string" where
  "rest st = fst (snd st)"

definition groups :: "mstate \<Rightarrow> (string \<times> string) list" where
  "groups st = snd (snd st)"

fun strip_prefix :: "string \<Rightarrow> string \<Rightarrow> string option" where
  "strip_prefix [] s = Some s"
| "strip_prefix (c # w) [] = None"
| "strip_prefix (c # w) (d # s) = (if c = d then strip_prefix w s else None)"

definition lit :: "string \<Rightarrow> mstate \<Rightarrow> mstate list" where
  "lit w st =
     (case strip_prefix w (rest st) of
        None \<Rightarrow> []
      | Some t \<Rightarrow> [(if w = [] then fst st else Some (last w), t, groups st)])"

definition one_char :: "(char \<Rightarrow> bool) \<Rightarrow> mstate \<Rightarrow> mstate list" where
  "one_char P st =
     (case rest st of
        [] \<Rightarrow> []
      | c # t \<Rightarrow> if P c then [(Some c, t, groups st)] else [])"

definition at_word_boundary :: "mstate \<Rightarrow> bool" where
  "at_word_boundary st =
     ((case fst st of None \<Rightarrow> False | Some c \<Rightarrow> is_word c) \<noteq>
      (case rest st of [] \<Rightarrow> False | c # _ \<Rightarrow> is_word c))"

definition shorter :: "mstate \<Rightarrow> mstate \<Rightarrow> bool" where
  "shorter st st' = (length (rest st') < length (rest st))"

definition capture :: "string \<Rightarrow> mstate \<Rightarrow> mstate \<Rightarrow> mstate" where
  "capture n st st' =
     (fst st', rest st',
      (n, take (length (rest st) - length (rest st')) (rest st)) # groups st')"

function run :: "re \<Rightarrow> mstate \<Rightarrow> mstate list" where
  "run (Lit w) st = lit w st"
| "run (In cs) st = one_char (\<lambda>c. list_ex (\<lambda>k. in_class k c) cs) st"
| "run (NotIn cs) st = one_char (\<lambda>c. \<not> list_ex (\<lambda>k. in_class k c) cs) st"
| "run Dot st = one_char (\<lambda>c. c \<noteq> CHR 0x0A) st"
| "run (Seq a b) st = concat (map (run b) (run a st))"
| "run (Alt a b) st = run a st @ run b st"
| "run (Star a) st = concat (map (run (Star a)) (filter (shorter st) (run a st))) @ [st]"
| "run (LazyStar a) st = st # concat (map (run (LazyStar a)) (filter (shorter st) (run a st)))"
| "run (Group n a) st = map (capture n st) (run a st)"
| "run (Backref n) st = (case map_of (groups st) n of None \<Rightarrow> [] | Some w \<Rightarrow> lit w st)"
| "run WordB st = (if at_word_boundary st then [st] else [])"
| "run Eos st = (if rest st = [] \<or> rest st = [CHR 0x0A] then [st] else [])"
  by pat_completeness auto
termination
  by (relation "measures [\<lambda>(r, st). size r, \<lambda>(r, st). length (rest st)]")
     (auto simp: shorter_def)

declare run.simps(7) [simp del] run.simps(8) [simp del]

definition re_match :: "re \<Rightarrow> string \<Rightarrow> mstate option" where
  "re_match r s = (case run r (None, s, []) of [] \<Rightarrow> None | m # _ \<Rightarrow> Some m)"

definition group :: "mstate \<Rightarrow> string \<Rightarrow> string option" where
  "group m n = map_of (groups m) n"

fun seqs :: "re list \<Rightarrow> re" where
  "seqs [] = Lit []"
| "seqs [r] = r"
| "seqs (r # rs) = Seq r (seqs rs)"

fun alts :: "re list \<Rightarrow> re" where
  "alts [] = NotIn []"
| "alts [r] = r"
| "alts (r # rs) = Alt r (alts rs)"

definition Opt :: "re \<Rightarrow> re" where
  "Opt r = Alt r (Lit [])"

definition Plus :: "re \<Rightarrow> re" where
  "Plus r = Seq r (Star r)"

fun rep :: "nat \<Rightarrow> re \<Rightarrow> re" where
  "rep 0 r = Lit []"
| "rep (Suc 0) r = r"
| "rep (Suc n) r = Seq r (rep n r)"


definition re_fullmatch :: "re \<Rightarrow> string \<Rightarrow> bool" where
  "re_fullmatch r s = list_ex (\<lambda>m. rest m = []) (run r (None, s, []))"

section \<open>The URL patterns of the four extractors\<close>

text \<open>\<^verbatim>\<open>_ARTE_LANGUAGES = 'fr|de|en|es|it|pl'\<close> and \<^verbatim>\<open>_API_BASE\<close> of \<^verbatim>\<open>ArteTVBaseIE\<close>.\<close>

definition ARTE_LANGUAGES :: re where
  "ARTE_LANGUAGES =
     alts [Lit ''fr'', Lit ''de'', Lit ''en'', Lit ''es'', Lit ''it'', Lit ''pl'']"

definition API_BASE :: string where
  "API_BASE = ''https://api.arte.tv/api/player/v2''"

text \<open>The body of the group \<^verbatim>\<open>(?P<id>\d{6}-\d{3}-[AF])\<close> of \<^verbatim>\<open>ArteTVIE._VALID_URL\<close>.\<close>

definition VIDEO_ID :: re where
  "VIDEO_ID =
     seqs [rep 6 (In [Digit]), Lit ''-'', rep 3 (In [Digit]), Lit ''-'',
           In [Ch CHR ''A'', Ch CHR ''F'']]"

text \<open>
  \<^verbatim>\<open>ArteTVIE._VALID_URL\<close>, written in verbose mode in the source (white space in the
  pattern is ignored).
\<close>

definition ArteTVIE_VALID_URL :: re where
  "ArteTVIE_VALID_URL =
     seqs [Lit ''http'', Opt (Lit ''s''), Lit ''://'',
           Alt (seqs [Opt (Lit ''www.''), Lit ''arte.tv/'', Group ''lang'' ARTE_LANGUAGES,
                      Lit ''/videos''])
               (seqs [Lit ''api.arte.tv/api/player/v'', Plus (In [Digit]), Lit ''/config/'',
                      Group ''lang_2'' ARTE_LANGUAGES]),
           Lit ''/'', Group ''id'' VIDEO_ID]"

text \<open>\<^verbatim>\<open>ArteTVEmbedIE._VALID_URL\<close>.\<close>

definition ArteTVEmbedIE_VALID_URL :: re where
  "ArteTVEmbedIE_VALID_URL =
     seqs [Lit ''http'', Opt (Lit ''s''), Lit ''://'', Opt (Lit ''www.''),
           Lit ''arte.tv/player/v'', Plus (In [Digit]), Lit ''/index.php?'',
           LazyStar Dot, WordB, Lit ''json_url='', Plus Dot]"

text \<open>\<^verbatim>\<open>ArteTVPlaylistIE._VALID_URL\<close>.\<close>

definition ArteTVPlaylistIE_VALID_URL :: re where
  "ArteTVPlaylistIE_VALID_URL =
     seqs [Lit ''http'', Opt (Lit ''s''), Lit ''://'', Opt (Lit ''www.''),
           Lit ''arte.tv/'', Group ''lang'' ARTE_LANGUAGES, Lit ''/videos/'',
           Group ''id'' (Seq (Lit ''RC-'') (rep 6 (In [Digit])))]"

text \<open>\<^verbatim>\<open>ArteTVCategoryIE._VALID_URL\<close>.\<close>

definition ArteTVCategoryIE_VALID_URL :: re where
  "ArteTVCategoryIE_VALID_URL =
     seqs [Lit ''http'', Opt (Lit ''s''), Lit ''://'', Opt (Lit ''www.''),
           Lit ''arte.tv/'', Group ''lang'' ARTE_LANGUAGES, Lit ''/videos/'',
           Group ''id'' (Seq (Plus (In [WordC, Ch CHR ''-'']))
                             (Star (Seq (Lit ''/'') (Plus (In [WordC, Ch CHR ''-'']))))),
           Opt (Lit ''/''), Star (In [SpaceC]), Eos]"

text \<open>
  Modelled from the spec: \<^verbatim>\<open>InfoExtractor.suitable\<close>, which the three extractors
  \<^verbatim>\<open>ArteTVIE\<close>, \<^verbatim>\<open>ArteTVEmbedIE\<close> and \<^verbatim>\<open>ArteTVPlaylistIE\<close> inherit from
  \<^verbatim>\<open>youtube_dl/extractor/common.py\<close>: "a pure structural match against each strategy's
  fixed URL pattern", that is, \<^verbatim>\<open>re.match(cls._VALID_URL, url) is not None\<close>.
\<close>

definition suitable :: "re \<Rightarrow> string \<Rightarrow> bool" where
  "suitable valid_url url = (re_match valid_url url \<noteq> None)"

definition ArteTVIE_suitable :: "string \<Rightarrow> bool" where
  "ArteTVIE_suitable url = suitable ArteTVIE_VALID_URL url"

definition ArteTVEmbedIE_suitable :: "string \<Rightarrow> bool" where
  "ArteTVEmbedIE_suitable url = suitable ArteTVEmbedIE_VALID_URL url"

definition ArteTVPlaylistIE_suitable :: "string \<Rightarrow> bool" where
  "ArteTVPlaylistIE_suitable url = suitable ArteTVPlaylistIE_VALID_URL url"

text \<open>
  \<^verbatim>\<open>ArteTVCategoryIE.suitable\<close> overrides the inherited predicate:
  \<^verbatim>\<open>not any(ie.suitable(url) for ie in (ArteTVIE, ArteTVPlaylistIE, ))
    and super(ArteTVCategoryIE, cls).suitable(url)\<close>.
\<close>

definition ArteTVCategoryIE_suitable :: "string \<Rightarrow> bool" where
  "ArteTVCategoryIE_suitable url =
     (\<not> list_ex (\<lambda>ie_suitable. ie_suitable url) [ArteTVIE_suitable, ArteTVPlaylistIE_suitable]
      \<and> suitable ArteTVCategoryIE_VALID_URL url)"

section \<open>JSON documents and Python's operations on them\<close>

text \<open>
  What \<^verbatim>\<open>_download_json\<close> returns: a parsed JSON document. An object is an association
  list in which the first binding of a key counts.
\<close>

datatype json =
    JNull
  | JBool bool
  | JInt int
  | JStr string
  | JArr "json list"
  | JObj "(string \<times> json) list"

text \<open>
  The exceptions of the extractor, as values. \<open>KeyError k\<close>: a dict has no key \<open>k\<close>;
  \<open>IndexError\<close>: an index is out of range; \<open>TypeError\<close>: a value is subscripted or
  iterated that does not support it; \<open>AttributeError\<close>: a method of \<^verbatim>\<open>None\<close> is called
  (also \<^verbatim>\<open>get\<close> of a value that is no dict); \<open>AssertionError\<close>: a failed \<^verbatim>\<open>assert\<close>;
  \<open>ValueError\<close> and \<open>DownloadError\<close> are what the external date parser and the
  external fetch may raise.
\<close>

datatype error =
    KeyError string
  | IndexError
  | TypeError
  | AttributeError
  | AssertionError
  | ValueError
  | DownloadError string

definition bind_result :: "error + 'a \<Rightarrow> ('a \<Rightarrow> error + 'b) \<Rightarrow> error + 'b" where
  "bind_result x f = (case x of Inl e \<Rightarrow> Inl e | Inr a \<Rightarrow> f a)"

text \<open>\<^verbatim>\<open>v[k]\<close> for a string key \<open>k\<close>.\<close>

fun getitem :: "json \<Rightarrow> string \<Rightarrow> error + json" where
  "getitem (JObj kvs) k = (case map_of kvs k of None \<Rightarrow> Inl (KeyError k) | Some v \<Rightarrow> Inr v)"
| "getitem _ k = Inl TypeError"

text \<open>\<^verbatim>\<open>v[k1][k2]\<close>.\<close>

definition field2 :: "json \<Rightarrow> string \<Rightarrow> string \<Rightarrow> error + json" where
  "field2 v k1 k2 = bind_result (getitem v k1) (\<lambda>x. getitem x k2)"

text \<open>\<^verbatim>\<open>v[0]\<close>. On a dict, whose keys are strings, the key \<^verbatim>\<open>0\<close> is missing.\<close>

fun getitem0 :: "json \<Rightarrow> error + json" where
  "getitem0 (JArr []) = Inl IndexError"
| "getitem0 (JArr (x # xs)) = Inr x"
| "getitem0 (JStr []) = Inl IndexError"
| "getitem0 (JStr (c # cs)) = Inr (JStr [c])"
| "getitem0 (JObj kvs) = Inl (KeyError ''0'')"
| "getitem0 _ = Inl TypeError"

text \<open>\<^verbatim>\<open>v.get(k)\<close>.\<close>

fun dict_get :: "json \<Rightarrow> string \<Rightarrow> error + json" where
  "dict_get (JObj kvs) k = (case map_of kvs k of None \<Rightarrow> Inr JNull | Some v \<Rightarrow> Inr v)"
| "dict_get _ k = Inl AttributeError"

text \<open>\<^verbatim>\<open>for x in v\<close>: the elements of a list, the keys of a dict, the characters of a string.\<close>

fun iter :: "json \<Rightarrow> error + json list" where
  "iter (JArr xs) = Inr xs"
| "iter (JObj kvs) = Inr (map JStr (rev (remdups (rev (map fst kvs)))))"
| "iter (JStr s) = Inr (map (\<lambda>c. JStr [c]) s)"
| "iter _ = Inl TypeError"

text \<open>Python's truth value of a JSON value.\<close>

fun truthy :: "json \<Rightarrow> bool" where
  "truthy JNull = False"
| "truthy (JBool b) = b"
| "truthy (JInt i) = (i \<noteq> 0)"
| "truthy (JStr s) = (s \<noteq> [])"
| "truthy (JArr xs) = (xs \<noteq> [])"
| "truthy (JObj kvs) = (kvs \<noteq> [])"

text \<open>\<^verbatim>\<open>isinstance(v, dict)\<close>.\<close>

fun is_dict :: "json \<Rightarrow> bool" where
  "is_dict (JObj kvs) = True"
| "is_dict _ = False"

text \<open>A string or \<^verbatim>\<open>None\<close>: \<^verbatim>\<open>'%s' % x\<close>, its truth value, \<^verbatim>\<open>x or y\<close>, and as a JSON value.\<close>

definition py_str :: "string option \<Rightarrow> string" where
  "py_str x = (case x of None \<Rightarrow> ''None'' | Some s \<Rightarrow> s)"

definition str_truthy :: "string option \<Rightarrow> bool" where
  "str_truthy x = (case x of None \<Rightarrow> False | Some s \<Rightarrow> s \<noteq> [])"

definition str_or :: "string option \<Rightarrow> string option \<Rightarrow> string option" where
  "str_or x y = (if str_truthy x then x else y)"

definition json_of :: "string option \<Rightarrow> json" where
  "json_of x = (case x of None \<Rightarrow> JNull | Some s \<Rightarrow> JStr s)"

section \<open>\<^verbatim>\<open>ArteTVIE\<close>: resolving one video\<close>

text \<open>
  A format, as \<^verbatim>\<open>_real_extract\<close> builds it and \<^verbatim>\<open>_sort_formats\<close> reads it.
  \<open>format_note\<close> holds the two values substituted into \<^verbatim>\<open>'%s, %s'\<close>. \<open>format_quality\<close> is
  the key \<^verbatim>\<open>'quality'\<close>, \<open>None\<close> when the dict has no such key.
\<close>

record format =
  format_id :: int
  format_note :: "json \<times> json"
  format_url :: json
  format_quality :: "int option"

text \<open>The dict that \<^verbatim>\<open>ArteTVIE._real_extract\<close> returns.\<close>

record 'd info_dict =
  info_id :: json
  info_title :: json
  info_description :: json
  info_upload_date :: 'd
  info_thumbnail :: json
  info_formats :: "format list"

text \<open>
  Modelled from the spec: \<^verbatim>\<open>qualities\<close> of \<^verbatim>\<open>youtube_dl/utils.py\<close>, which is not under
  \<^verbatim>\<open>src/\<close>. "Rank assignment: index of the quality code within the fixed order; codes
  outside this set get a sentinel unranked value", here \<open>- 1\<close>.
\<close>

fun index_of :: "string list \<Rightarrow> string \<Rightarrow> int option" where
  "index_of [] q = None"
| "index_of (x # xs) q =
     (if x = q then Some 0 else (case index_of xs q of None \<Rightarrow> None | Some i \<Rightarrow> Some (i + 1)))"

definition qualities :: "string list \<Rightarrow> json \<Rightarrow> int" where
  "qualities quality_ids qid =
     (case qid of
        JStr q \<Rightarrow> (case index_of quality_ids q of None \<Rightarrow> - 1 | Some i \<Rightarrow> i)
      | _ \<Rightarrow> - 1)"

text \<open>
  Modelled from the spec: \<^verbatim>\<open>InfoExtractor._sort_formats\<close> of
  \<^verbatim>\<open>youtube_dl/extractor/common.py\<close>, which is not under \<^verbatim>\<open>src/\<close>. "Output ordering:
  ascending by rank", stable: "multiple formats at the same quality are preserved in
  input order". The rank of a format is its \<^verbatim>\<open>'quality'\<close>, the sentinel when it has none.
\<close>

definition format_rank :: "format \<Rightarrow> int" where
  "format_rank f = (case format_quality f of None \<Rightarrow> - 1 | Some q \<Rightarrow> q)"

definition sort_formats :: "format list \<Rightarrow> format list" where
  "sort_formats formats = sort_key format_rank formats"

text \<open>
  The body of the loop \<^verbatim>\<open>for stream in attributes['streams']\<close>: the dict display is
  evaluated first, then \<^verbatim>\<open>format['url'] = stream['url']\<close>. The keys that would carry the
  width, the height, the bit rate and the quality are commented out in the source.
\<close>

definition build_format :: "json \<Rightarrow> error + format" where
  "build_format stream =
     bind_result (getitem stream ''mainQuality'') (\<lambda>q1.
     bind_result (getitem q1 ''code'') (\<lambda>code.
     bind_result (getitem stream ''mainQuality'') (\<lambda>q2.
     bind_result (getitem q2 ''label'') (\<lambda>label.
     bind_result (getitem stream ''url'') (\<lambda>stream_url.
       Inr \<lparr>format_id = 0, format_note = (code, label), format_url = stream_url,
            format_quality = None\<rparr>)))))"

fun build_formats :: "json list \<Rightarrow> error + format list" where
  "build_formats [] = Inr []"
| "build_formats (stream # streams) =
     bind_result (build_format stream) (\<lambda>f.
     bind_result (build_formats streams) (\<lambda>fs. Inr (f # fs)))"

text \<open>
  Lines 61 to 109 of \<^verbatim>\<open>ArteTVIE._real_extract\<close>: from the fetched document \<open>info\<close> to
  the returned dict. \<open>fromisoformat_date\<close> stands for Python's
  \<^verbatim>\<open>datetime.fromisoformat(x).date()\<close>. \<open>qfunc\<close> is assigned and never applied, as
  in the source (so are \<^verbatim>\<open>LANGS\<close> and \<^verbatim>\<open>langcode\<close>, which are left out).
\<close>

definition extract_info ::
  "(json \<Rightarrow> error + 'd) \<Rightarrow> string option \<Rightarrow> json \<Rightarrow> error + 'd info_dict" where
  "extract_info fromisoformat_date video_id info =
     bind_result (getitem info ''data'') (\<lambda>data.
     bind_result (getitem data ''attributes'') (\<lambda>attributes.
     bind_result (getitem attributes ''rights'') (\<lambda>rights.
     bind_result (getitem rights ''begin'') (\<lambda>begin.
     bind_result (fromisoformat_date begin) (\<lambda>upload_date.
     let qfunc = qualities [''MQ'', ''HQ'', ''EQ'', ''SQ''] in
     bind_result (getitem attributes ''streams'') (\<lambda>streams.
     bind_result (iter streams) (\<lambda>stream_list.
     bind_result (build_formats stream_list) (\<lambda>formats.
     let formats = sort_formats formats in
     bind_result (getitem attributes ''metadata'') (\<lambda>m1.
     bind_result (getitem m1 ''providerId'') (\<lambda>provider_id.
     bind_result (getitem attributes ''metadata'') (\<lambda>m2.
     bind_result (getitem m2 ''title'') (\<lambda>title.
     bind_result (getitem attributes ''metadata'') (\<lambda>m3.
     bind_result (getitem m3 ''description'') (\<lambda>description.
     bind_result (getitem attributes ''metadata'') (\<lambda>m4.
     bind_result (getitem m4 ''images'') (\<lambda>images.
     bind_result (getitem0 images) (\<lambda>image.
     bind_result (getitem image ''url'') (\<lambda>thumbnail.
       Inr \<lparr>info_id = (if truthy provider_id then provider_id else json_of video_id),
            info_title = title,
            info_description = description,
            info_upload_date = upload_date,
            info_thumbnail = thumbnail,
            info_formats = formats\<rparr>))))))))))))))))))"

text \<open>
  \<^verbatim>\<open>ArteTVIE._real_extract\<close>. \<open>download_json\<close> stands for the external fetch
  \<^verbatim>\<open>self._download_json(url, video_id)\<close>. A URL that does not match leaves \<^verbatim>\<open>mobj\<close>
  \<^verbatim>\<open>None\<close>, and \<^verbatim>\<open>mobj.group\<close> raises.
\<close>

definition ArteTVIE_real_extract ::
  "(json \<Rightarrow> error + 'd) \<Rightarrow> (string \<Rightarrow> string option \<Rightarrow> error + json) \<Rightarrow> string
     \<Rightarrow> error + 'd info_dict" where
  "ArteTVIE_real_extract fromisoformat_date download_json url =
     (case re_match ArteTVIE_VALID_URL url of
        None \<Rightarrow> Inl AttributeError
      | Some mobj \<Rightarrow>
          let video_id = group mobj ''id'';
              lang = str_or (group mobj ''lang'') (group mobj ''lang_2'')
          in bind_result
               (download_json (API_BASE @ ''/config/'' @ py_str lang @ ''/'' @ py_str video_id)
                  video_id)
               (extract_info fromisoformat_date video_id))"

section \<open>\<^verbatim>\<open>ArteTVEmbedIE\<close>: the embedded player\<close>

text \<open>
  Modelled from the spec: what \<^verbatim>\<open>InfoExtractor.url_result\<close> of
  \<^verbatim>\<open>youtube_dl/extractor/common.py\<close> (not under \<^verbatim>\<open>src/\<close>) returns, a reference to a URL
  that is still to be resolved, with the extractor to resolve it and the id when they are
  given.
\<close>

record url_result =
  ur_url :: string
  ur_ie_key :: "string option"
  ur_id :: "string option"

definition url_result_of :: "string \<Rightarrow> string option \<Rightarrow> string option \<Rightarrow> url_result" where
  "url_result_of u ie video_id = \<lparr>ur_url = u, ur_ie_key = ie, ur_id = video_id\<rparr>"

text \<open>\<^verbatim>\<open>ArteTVIE.ie_key()\<close>: the name of the class without its suffix \<^verbatim>\<open>IE\<close>.\<close>

definition ArteTVIE_ie_key :: string where
  "ArteTVIE_ie_key = ''ArteTV''"

text \<open>
  Modelled from the spec: \<^verbatim>\<open>InfoExtractor._match_id\<close> of
  \<^verbatim>\<open>youtube_dl/extractor/common.py\<close>, the group \<^verbatim>\<open>id\<close> of the match of the extractor's
  pattern; the URL must match.
\<close>

definition match_id :: "re \<Rightarrow> string \<Rightarrow> error + string option" where
  "match_id valid_url u =
     (case re_match valid_url u of None \<Rightarrow> Inl AssertionError | Some m \<Rightarrow> Inr (group m ''id''))"

text \<open>
  \<^verbatim>\<open>ArteTVEmbedIE._real_extract\<close>. \<open>parse_query\<close> stands for Python's
  \<^verbatim>\<open>parse_qs(urlparse(url).query)\<close>: the parameters of the query with the list of the
  values of each.
\<close>

definition ArteTVEmbedIE_real_extract ::
  "(string \<Rightarrow> (string \<times> string list) list) \<Rightarrow> string \<Rightarrow> error + url_result" where
  "ArteTVEmbedIE_real_extract parse_query url =
     (let qs = parse_query url in
      case map_of qs ''json_url'' of
        None \<Rightarrow> Inl (KeyError ''json_url'')
      | Some [] \<Rightarrow> Inl IndexError
      | Some (json_url # _) \<Rightarrow>
          bind_result (match_id ArteTVIE_VALID_URL json_url) (\<lambda>video_id.
            Inr (url_result_of json_url (Some ArteTVIE_ie_key) video_id)))"

text \<open>
  Modelled from the spec: the host's delegation. "\<^verbatim>\<open>classify\<close> on an Embed URL followed
  by delegation to Video resolution of the embedded id": the URL of the reference that
  Embed returns is resolved by the extractor it names, \<^verbatim>\<open>ArteTVIE\<close>.
\<close>

definition resolve_embed ::
  "(json \<Rightarrow> error + 'd) \<Rightarrow> (string \<Rightarrow> string option \<Rightarrow> error + json)
     \<Rightarrow> (string \<Rightarrow> (string \<times> string list) list) \<Rightarrow> string \<Rightarrow> error + 'd info_dict" where
  "resolve_embed fromisoformat_date download_json parse_query url =
     bind_result (ArteTVEmbedIE_real_extract parse_query url) (\<lambda>r.
       ArteTVIE_real_extract fromisoformat_date download_json (ur_url r))"

section \<open>\<^verbatim>\<open>ArteTVPlaylistIE\<close>: a collection\<close>

text \<open>
  Modelled from the spec: what \<^verbatim>\<open>InfoExtractor.playlist_result\<close> of
  \<^verbatim>\<open>youtube_dl/extractor/common.py\<close> (not under \<^verbatim>\<open>src/\<close>) returns, the
  \<^verbatim>\<open>CollectionResult\<close> of the specification: the id, the title and the description that
  are given, and the entries in their order.
\<close>

record 'e collection_result =
  cr_id :: json
  cr_title :: json
  cr_description :: json
  cr_entries :: "'e list"

definition playlist_result :: "'e list \<Rightarrow> json \<Rightarrow> json \<Rightarrow> json \<Rightarrow> 'e collection_result" where
  "playlist_result entries playlist_id playlist_title playlist_description =
     \<lparr>cr_id = playlist_id, cr_title = playlist_title, cr_description = playlist_description,
      cr_entries = entries\<rparr>"

text \<open>An entry of the list that \<^verbatim>\<open>ArteTVPlaylistIE._real_extract\<close> builds.\<close>

record playlist_entry =
  pe_type :: string
  pe_url :: string
  pe_id :: json
  pe_title :: json
  pe_alt_title :: json
  pe_thumbnail :: "string option"
  pe_duration :: "int option"
  pe_view_count :: "int option"
  pe_ie_key :: string

text \<open>
  Modelled from the spec: \<^verbatim>\<open>try_get(video, lambda x: x['mainImage']['url'], compat_str)\<close>
  of \<^verbatim>\<open>youtube_dl/utils.py\<close>, which is not under \<^verbatim>\<open>src/\<close>: the value when the lookup
  succeeds with a string, and \<^verbatim>\<open>None\<close> otherwise ("dropping unparseable ones to empty
  rather than failing the whole aggregation").
\<close>

definition try_get_str :: "error + json \<Rightarrow> json" where
  "try_get_str r = (case r of Inr (JStr s) \<Rightarrow> JStr s | _ \<Rightarrow> JNull)"

text \<open>
  The body of the loop \<^verbatim>\<open>for video in collection['videos']\<close>: \<open>None\<close> where the source
  says \<^verbatim>\<open>continue\<close>. \<open>url_or_none\<close> and \<open>int_or_none\<close> stand for the helpers of these
  names of \<^verbatim>\<open>youtube_dl/utils.py\<close>.
\<close>

definition playlist_entry_of ::
  "(json \<Rightarrow> string option) \<Rightarrow> (json \<Rightarrow> int option) \<Rightarrow> json
     \<Rightarrow> error + playlist_entry option" where
  "playlist_entry_of url_or_none int_or_none video =
     (if \<not> is_dict video then Inr None
      else
        bind_result (dict_get video ''url'') (\<lambda>direct.
        bind_result (dict_get video ''jsonUrl'') (\<lambda>json_url.
        let video_url = str_or (url_or_none direct) (url_or_none json_url) in
        if \<not> str_truthy video_url then Inr None
        else
          bind_result (dict_get video ''programId'') (\<lambda>video_id.
          bind_result (dict_get video ''title'') (\<lambda>title.
          bind_result (dict_get video ''subtitle'') (\<lambda>subtitle.
          bind_result (dict_get video ''durationSeconds'') (\<lambda>duration.
          bind_result (dict_get video ''views'') (\<lambda>views.
            Inr (Some \<lparr>pe_type = ''url_transparent'',
                       pe_url = py_str video_url,
                       pe_id = video_id,
                       pe_title = title,
                       pe_alt_title = subtitle,
                       pe_thumbnail =
                         url_or_none (try_get_str (field2 video ''mainImage'' ''url'')),
                       pe_duration = int_or_none duration,
                       pe_view_count = int_or_none views,
                       pe_ie_key = ArteTVIE_ie_key\<rparr>)))))))))"

fun playlist_entries ::
  "(json \<Rightarrow> string option) \<Rightarrow> (json \<Rightarrow> int option) \<Rightarrow> json list
     \<Rightarrow> error + playlist_entry list" where
  "playlist_entries url_or_none int_or_none [] = Inr []"
| "playlist_entries url_or_none int_or_none (video # videos) =
     bind_result (playlist_entry_of url_or_none int_or_none video) (\<lambda>entry.
     bind_result (playlist_entries url_or_none int_or_none videos) (\<lambda>entries.
       Inr (case entry of None \<Rightarrow> entries | Some e \<Rightarrow> e # entries)))"

text \<open>
  \<^verbatim>\<open>ArteTVPlaylistIE._real_extract\<close>. The two groups of the pattern are unpacked from
  \<^verbatim>\<open>re.match(...).groups()\<close>, which raises when the URL does not match.
\<close>

definition ArteTVPlaylistIE_real_extract ::
  "(json \<Rightarrow> string option) \<Rightarrow> (json \<Rightarrow> int option)
     \<Rightarrow> (string \<Rightarrow> string option \<Rightarrow> error + json) \<Rightarrow> string
     \<Rightarrow> error + playlist_entry collection_result" where
  "ArteTVPlaylistIE_real_extract url_or_none int_or_none download_json url =
     (case re_match ArteTVPlaylistIE_VALID_URL url of
        None \<Rightarrow> Inl AttributeError
      | Some m \<Rightarrow>
          let lang = group m ''lang''; playlist_id = group m ''id'' in
          bind_result
            (download_json
               (API_BASE @ ''/collectionData/'' @ py_str lang @ ''/'' @ py_str playlist_id
                  @ ''?source=videos'')
               playlist_id) (\<lambda>collection.
          bind_result (getitem collection ''videos'') (\<lambda>videos.
          bind_result (iter videos) (\<lambda>video_list.
          bind_result (playlist_entries url_or_none int_or_none video_list) (\<lambda>entries.
          bind_result (dict_get collection ''title'') (\<lambda>title.
          bind_result (dict_get collection ''shortDescription'') (\<lambda>short.
          bind_result (if truthy short then Inr short
                       else dict_get collection ''teaserText'') (\<lambda>description.
            Inr (playlist_result entries (json_of playlist_id) title description)))))))))"

section \<open>\<^verbatim>\<open>ArteTVCategoryIE\<close>: a category page\<close>

text \<open>
  \<^verbatim>\<open>re.finditer\<close>: the matches of a pattern in a text from left to right, each search
  starting where the match before ended. (After a match of the empty string the search
  moves on by one character; the pattern of the links never matches the empty string.)
\<close>

function finditer_from :: "re \<Rightarrow> char option \<Rightarrow> string \<Rightarrow> mstate list" where
  "finditer_from r p s =
     (case run r (p, s, []) of
        m # _ \<Rightarrow>
          if length (rest m) < length s then m # finditer_from r (fst m) (rest m)
          else (case s of [] \<Rightarrow> [m] | c # t \<Rightarrow> m # finditer_from r (Some c) t)
      | [] \<Rightarrow> (case s of [] \<Rightarrow> [] | c # t \<Rightarrow> finditer_from r (Some c) t))"
  by pat_completeness auto
termination
  by (relation "measure (\<lambda>(r, p, s). length s)") auto

declare finditer_from.simps [simp del]

definition finditer :: "re \<Rightarrow> string \<Rightarrow> mstate list" where
  "finditer r s = finditer_from r None s"

text \<open>
  The pattern of the links, with the language of the page substituted for \<^verbatim>\<open>%s\<close>:
  \<^verbatim>\<open><a\b[^>]*?href\s*=\s*(?P<q>"|\'|\b)(?P<url>https?://www\.arte\.tv/%s/videos/[\w/-]+)(?P=q)\<close>.
\<close>

definition link_pattern :: "string \<Rightarrow> re" where
  "link_pattern lang =
     seqs [Lit ''<a'', WordB, LazyStar (NotIn [Ch CHR ''>'']), Lit ''href'',
           Star (In [SpaceC]), Lit ''='', Star (In [SpaceC]),
           Group ''q'' (alts [Lit [CHR 0x22], Lit [CHR 0x27], WordB]),
           Group ''url'' (seqs [Lit ''http'', Opt (Lit ''s''), Lit ''://www.arte.tv/'', Lit lang,
                               Lit ''/videos/'',
                               Plus (In [WordC, Ch CHR ''/'', Ch CHR ''-''])]),
           Backref ''q'']"

text \<open>
  The loop of \<^verbatim>\<open>ArteTVCategoryIE._real_extract\<close> that collects \<^verbatim>\<open>items\<close>: a link equal to
  the URL of the page is skipped, and a link is kept when Video or Playlist claims it.
\<close>

definition keep_link :: "string \<Rightarrow> string \<Rightarrow> bool" where
  "keep_link url video =
     (video \<noteq> url \<and>
      list_ex (\<lambda>ie_suitable. ie_suitable video) [ArteTVIE_suitable, ArteTVPlaylistIE_suitable])"

definition category_items :: "string \<Rightarrow> string \<Rightarrow> string \<Rightarrow> string list" where
  "category_items lang url webpage =
     filter (keep_link url)
       (map (\<lambda>video. py_str (group video ''url'')) (finditer (link_pattern lang) webpage))"

text \<open>\<^verbatim>\<open>title.rsplit('|', 1)[0]\<close>: the text before the last \<^verbatim>\<open>|\<close>, all of it when there is none.\<close>

definition rsplit_head :: "string \<Rightarrow> string" where
  "rsplit_head s =
     (if CHR ''|'' \<in> set s then rev (tl (dropWhile (\<lambda>c. c \<noteq> CHR ''|'') (rev s))) else s)"

text \<open>
  Modelled from the spec: \<^verbatim>\<open>strip_or_none\<close> of \<^verbatim>\<open>youtube_dl/utils.py\<close>, which is not
  under \<^verbatim>\<open>src/\<close>: the text "trimmed" of the white space at both ends, \<^verbatim>\<open>None\<close> for
  \<^verbatim>\<open>None\<close>.
\<close>

definition strip :: "string \<Rightarrow> string" where
  "strip s = rev (dropWhile is_space (rev (dropWhile is_space s)))"

definition strip_or_none :: "string option \<Rightarrow> string option" where
  "strip_or_none v = (case v of None \<Rightarrow> None | Some s \<Rightarrow> Some (strip s))"

text \<open>
  Modelled from the spec: \<^verbatim>\<open>InfoExtractor.playlist_from_matches\<close> of
  \<^verbatim>\<open>youtube_dl/extractor/common.py\<close>, which is not under \<^verbatim>\<open>src/\<close>: a collection with
  one reference for each link, in the "page-appearance order" and with "no
  deduplication", under the id and the title that are given.
\<close>

definition playlist_from_matches ::
  "string list \<Rightarrow> string option \<Rightarrow> string option \<Rightarrow> url_result collection_result" where
  "playlist_from_matches matches playlist_id playlist_title =
     playlist_result (map (\<lambda>m. url_result_of m None None) matches)
       (json_of playlist_id) (json_of playlist_title) JNull"

text \<open>
  \<^verbatim>\<open>ArteTVCategoryIE._real_extract\<close>. The function returns \<^verbatim>\<open>None\<close> when \<^verbatim>\<open>items\<close> is
  empty: the result is an option. The external helpers are parameters:
  \<open>download_webpage\<close> for \<^verbatim>\<open>self._download_webpage(url, playlist_id)\<close>,
  \<open>og_search_title\<close> and \<open>og_search_description\<close> for the calls with
  \<^verbatim>\<open>default=None\<close> on the page, \<open>generic_title\<close> for \<^verbatim>\<open>self._generic_title(url)\<close>, and
  \<open>html_title\<close> for the outcome of the call
  \<^verbatim>\<open>self._html_search_regex(r'<title\b[^>]*>([^<]+)</title>', default=None)\<close>, to which
  the source passes no page. The call is made only when the open-graph title is empty
  or \<^verbatim>\<open>None\<close>, and \<^verbatim>\<open>title.rsplit\<close> raises when the title is \<^verbatim>\<open>None\<close>. A dict with keys is
  true, so \<^verbatim>\<open>if result:\<close> always holds.
\<close>

definition ArteTVCategoryIE_real_extract ::
  "(string \<Rightarrow> string option \<Rightarrow> error + string) \<Rightarrow> (string \<Rightarrow> string option)
     \<Rightarrow> error + string option \<Rightarrow> (string \<Rightarrow> string) \<Rightarrow> (string \<Rightarrow> string option)
     \<Rightarrow> string \<Rightarrow> error + url_result collection_result option" where
  "ArteTVCategoryIE_real_extract download_webpage og_search_title html_title generic_title
       og_search_description url =
     (case re_match ArteTVCategoryIE_VALID_URL url of
        None \<Rightarrow> Inl AttributeError
      | Some m \<Rightarrow>
          let lang = group m ''lang''; playlist_id = group m ''id'' in
          bind_result (download_webpage url playlist_id) (\<lambda>webpage.
          let items = category_items (py_str lang) url webpage in
          if items \<noteq> [] then
            bind_result (if str_truthy (og_search_title webpage)
                         then Inr (og_search_title webpage) else html_title) (\<lambda>title.
            case title of
              None \<Rightarrow> Inl AttributeError
            | Some t \<Rightarrow>
                let title = str_or (strip_or_none (Some (rsplit_head t)))
                                   (Some (generic_title url));
                    result = playlist_from_matches items playlist_id title;
                    description = og_search_description webpage
                in Inr (Some (if str_truthy description
                              then result\<lparr>cr_description := json_of description\<rparr>
                              else result)))
          else Inr None))"

section \<open>Definitions that follow the words of the specification\<close>

text \<open>
  The specification's \<^verbatim>\<open>VideoId\<close>: a "string matching \<^verbatim>\<open>\d{6}-\d{3}-[A-Z]\<close> (6 digits, dash,
  3 digits, dash, one uppercase letter)". The source's pattern is \<open>VIDEO_ID\<close> above.
\<close>

definition spec_VideoId :: re where
  "spec_VideoId =
     seqs [rep 6 (In [Digit]), Lit ''-'', rep 3 (In [Digit]), Lit ''-'',
           In (map Ch ''ABCDEFGHIJKLMNOPQRSTUVWXYZ'')]"

text \<open>
  The specification's target of a raw playlist entry: "compute \<^verbatim>\<open>targetUrl\<close> as the
  entry's direct url, or its alternate json url if the direct url is absent; drop the
  entry if neither exists". A url is there when \<open>url_or_none\<close> accepts the field.
\<close>

definition entry_field :: "json \<Rightarrow> string \<Rightarrow> json" where
  "entry_field v k =
     (case v of
        JObj kvs \<Rightarrow> (case map_of kvs k of None \<Rightarrow> JNull | Some x \<Rightarrow> x)
      | _ \<Rightarrow> JNull)"

definition spec_valid_url :: "(json \<Rightarrow> string option) \<Rightarrow> json \<Rightarrow> string \<Rightarrow> string option" where
  "spec_valid_url url_or_none v k =
     (if is_dict v \<and> str_truthy (url_or_none (entry_field v k))
      then url_or_none (entry_field v k) else None)"

definition spec_target_url :: "(json \<Rightarrow> string option) \<Rightarrow> json \<Rightarrow> string option" where
  "spec_target_url url_or_none v =
     (case spec_valid_url url_or_none v ''url'' of
        Some u \<Rightarrow> Some u
      | None \<Rightarrow> spec_valid_url url_or_none v ''jsonUrl'')"

text \<open>
  The specification's title of a category: "first non-empty wins: social/open-graph
  title, then \<^verbatim>\<open><title>\<close> element text split at the first \<^verbatim>\<open>|\<close> and trimmed, then a
  generic title derived from the URL path".
\<close>

definition split_first_bar :: "string \<Rightarrow> string" where
  "split_first_bar s = takeWhile (\<lambda>c. c \<noteq> CHR ''|'') s"

definition spec_category_title :: "string option \<Rightarrow> string option \<Rightarrow> string \<Rightarrow> string" where
  "spec_category_title og title_tag generic =
     (if str_truthy og then py_str og
      else if str_truthy (strip_or_none (map_option split_first_bar title_tag))
           then py_str (strip_or_none (map_option split_first_bar title_tag))
           else generic)"

section \<open>Proof devices\<close>

text \<open>
  \<open>shape r u\<close> over-approximates the texts \<open>u\<close> that a match of \<open>r\<close> can consume:
  it is exact on literals, classes, sequences, alternatives and groups, and allows any
  text for a repetition or a back-reference. Every match of the matcher consumes a text
  of this shape (lemma \<open>run_shape\<close>), which is how a URL that an extractor accepts is
  shown to begin the way its pattern says.
\<close>

fun shape :: "re \<Rightarrow> string \<Rightarrow> bool" where
  "shape (Lit w) u = (u = w)"
| "shape (In cs) u = (\<exists>c. u = [c] \<and> list_ex (\<lambda>k. in_class k c) cs)"
| "shape (NotIn cs) u = (\<exists>c. u = [c] \<and> \<not> list_ex (\<lambda>k. in_class k c) cs)"
| "shape Dot u = (\<exists>c. u = [c] \<and> c \<noteq> CHR 0x0A)"
| "shape (Seq a b) u = (\<exists>x y. u = x @ y \<and> shape a x \<and> shape b y)"
| "shape (Alt a b) u = (shape a u \<or> shape b u)"
| "shape (Star a) u = True"
| "shape (LazyStar a) u = True"
| "shape (Group n a) u = shape a u"
| "shape (Backref n) u = True"
| "shape WordB u = (u = [])"
| "shape Eos u = (u = [])"


text \<open>
  The six language codes of \<open>ARTE_LANGUAGES\<close> as strings, and the two ways a URL of the
  patterns begins: on the site (\<^verbatim>\<open>https?://(?:www\.)?arte\.tv/\<close>, followed by the path
  \<open>p\<close>) or on the API host.
\<close>

definition lang_codes :: "string list" where
  "lang_codes = [''fr'', ''de'', ''en'', ''es'', ''it'', ''pl'']"

definition site :: "string \<Rightarrow> string \<Rightarrow> bool" where
  "site url p = (\<exists>sch \<in> {''http://'', ''https://''}. \<exists>w \<in> {[], ''www.''}.
                   url = sch @ w @ ''arte.tv/'' @ p)"

definition api_site :: "string \<Rightarrow> bool" where
  "api_site url =
     (\<exists>sch \<in> {''http://'', ''https://''}. \<exists>t. url = sch @ ''api.arte.tv/'' @ t)"

text \<open>
  The object \<^verbatim>\<open>info['data']['attributes']\<close> of a fetched document, the first image
  of the attributes, and the errors that a failed subscript or iteration raises.
\<close>

definition attributes_of :: "json \<Rightarrow> error + json" where
  "attributes_of info = bind_result (getitem info ''data'') (\<lambda>d. getitem d ''attributes'')"

definition has_attributes_object :: "json \<Rightarrow> bool" where
  "has_attributes_object info =
     (case attributes_of info of Inl e \<Rightarrow> False | Inr a \<Rightarrow> is_dict a)"

definition first_image :: "json \<Rightarrow> error + json" where
  "first_image attributes = bind_result (field2 attributes ''metadata'' ''images'') getitem0"

fun is_lookup_error :: "error \<Rightarrow> bool" where
  "is_lookup_error (KeyError k) = True"
| "is_lookup_error IndexError = True"
| "is_lookup_error TypeError = True"
| "is_lookup_error _ = False"

definition failed :: "error + 'a \<Rightarrow> bool" where
  "failed x = (case x of Inl e \<Rightarrow> True | Inr a \<Rightarrow> False)"

text \<open>
  The groups that \<^verbatim>\<open>ArteTVIE._real_extract\<close> reads from a URL: the id and the language
  (\<^verbatim>\<open>mobj.group('lang') or mobj.group('lang_2')\<close>).
\<close>

definition video_groups :: "string \<Rightarrow> (string option \<times> string option) option" where
  "video_groups u =
     (case re_match ArteTVIE_VALID_URL u of
        None \<Rightarrow> None
      | Some mobj \<Rightarrow>
          Some (group mobj ''id'', str_or (group mobj ''lang'') (group mobj ''lang_2'')))"

text \<open>
  Three configuration documents: one whose \<^verbatim>\<open>images\<close> list is empty, one without a
  title whose \<^verbatim>\<open>rights.begin\<close> is no ISO date, and a complete one with the streams
  of quality \<^verbatim>\<open>SQ\<close> and \<^verbatim>\<open>MQ\<close>, in this order. \<open>iso_date_prefix\<close> is an instance of
  the date parser for the second: like \<^verbatim>\<open>datetime.fromisoformat\<close>, it raises
  \<^verbatim>\<open>ValueError\<close> on a string that does not begin with a date \<^verbatim>\<open>YYYY-MM-DD\<close> and
  \<^verbatim>\<open>TypeError\<close> on a value that is no string; of any other string it returns the ten
  characters of the date.
\<close>

definition iso_date_prefix :: "json \<Rightarrow> error + string" where
  "iso_date_prefix j =
     (case j of
        JStr s \<Rightarrow>
          if re_fullmatch (seqs [rep 4 (In [Digit]), Lit ''-'', rep 2 (In [Digit]), Lit ''-'',
                                 rep 2 (In [Digit])]) (take 10 s)
          then Inr (take 10 s) else Inl ValueError
      | _ \<Rightarrow> Inl TypeError)"

definition attributes_bad_date :: json where
  "attributes_bad_date =
     JObj [(''rights'', JObj [(''begin'', JStr ''28/06/2019'')]),
           (''metadata'', JObj
              [(''providerId'', JStr ''088501-000-A''),
               (''description'', JNull),
               (''images'', JArr [JObj [(''url'', JStr ''https://api-cdn.arte.tv/img.jpg'')]])]),
           (''streams'', JArr
              [JObj [(''url'', JStr ''https://arte.tv/sq.mp4''),
                     (''mainQuality'', JObj [(''code'', JStr ''SQ''), (''label'', JStr ''720p'')])]])]"

definition doc_bad_date :: json where
  "doc_bad_date = JObj [(''data'', JObj [(''attributes'', attributes_bad_date)])]"

definition attributes_no_images :: json where
  "attributes_no_images =
     JObj [(''rights'', JObj [(''begin'', JStr ''2019-06-28T07:00:00+00:00'')]),
           (''metadata'', JObj
              [(''providerId'', JStr ''088501-000-A''),
               (''title'', JStr ''Mexico: Stealing Petrol to Survive''),
               (''description'', JNull),
               (''images'', JArr [])]),
           (''streams'', JArr
              [JObj [(''url'', JStr ''https://arte.tv/sq.mp4''),
                     (''mainQuality'', JObj [(''code'', JStr ''SQ''), (''label'', JStr ''720p'')])]])]"

definition doc_no_images :: json where
  "doc_no_images = JObj [(''data'', JObj [(''attributes'', attributes_no_images)])]"

definition doc_two_streams :: json where
  "doc_two_streams =
     JObj [(''data'', JObj [(''attributes'', JObj
       [(''rights'', JObj [(''begin'', JStr ''2019-06-28T07:00:00+00:00'')]),
        (''metadata'', JObj
           [(''providerId'', JStr ''088501-000-A''),
            (''title'', JStr ''Mexico: Stealing Petrol to Survive''),
            (''description'', JNull),
            (''images'', JArr [JObj [(''url'', JStr ''https://api-cdn.arte.tv/img.jpg'')]])]),
        (''streams'', JArr
           [JObj [(''url'', JStr ''https://arte.tv/sq.mp4''),
                  (''mainQuality'', JObj [(''code'', JStr ''SQ''), (''label'', JStr ''720p'')])],
            JObj [(''url'', JStr ''https://arte.tv/mq.mp4''),
                  (''mainQuality'', JObj [(''code'', JStr ''MQ''), (''label'', JStr ''216p'')])]])])])]"

text \<open>
  The links that the crawl of the page at \<open>url\<close> keeps, with the language read from the
  URL as \<^verbatim>\<open>_real_extract\<close> does; and three small pages: one without a link, one with a
  link to a video, and one with a link to itself and a link to a video.
\<close>

definition crawl_items :: "string \<Rightarrow> string \<Rightarrow> string list" where
  "crawl_items url webpage =
     (case re_match ArteTVCategoryIE_VALID_URL url of
        None \<Rightarrow> []
      | Some m \<Rightarrow> category_items (py_str (group m ''lang'')) url webpage)"

definition page_no_link :: string where
  "page_no_link = ''<p>soon</p>''"

definition page_video_link :: string where
  "page_video_link = ''<a href=https://www.arte.tv/en/videos/088501-000-A/>''"

definition page_self_link :: string where
  "page_self_link =
     ''<a href=https://www.arte.tv/en/videos/arts/><a href=https://www.arte.tv/en/videos/088501-000-A/>''"

text \<open>
  For the playlist: an instance of \<open>url_or_none\<close> and of \<open>int_or_none\<close>, and a
  collection of four raw entries: one with both urls, one that is no object, one without
  a url, and one with the json url alone.
\<close>

definition only_strings :: "json \<Rightarrow> string option" where
  "only_strings j = (case j of JStr s \<Rightarrow> Some s | _ \<Rightarrow> None)"

definition only_ints :: "json \<Rightarrow> int option" where
  "only_ints j = (case j of JInt i \<Rightarrow> Some i | _ \<Rightarrow> None)"

definition collection_four :: json where
  "collection_four =
     JObj [(''title'', JStr ''Earn a Living''),
           (''videos'', JArr
              [JObj [(''url'', JStr ''https://www.arte.tv/en/videos/069790-001-A/''),
                     (''jsonUrl'', JStr ''https://api.arte.tv/api/player/v2/config/en/069790-001-A'')],
               JNull,
               JObj [(''title'', JStr ''no url'')],
               JObj [(''jsonUrl'', JStr ''https://api.arte.tv/api/player/v2/config/en/069790-002-A'')]])]"

section \<open>Facts about the matcher\<close>

lemma run_Star: "set (run (Star a) st) = insert st (\<Union>st' \<in> {x \<in> set (run a st). shorter st x}. set (run (Star a) st'))"
  by (subst run.simps(7)) auto

lemma run_LazyStar: "set (run (LazyStar a) st) = insert st (\<Union>st' \<in> {x \<in> set (run a st). shorter st x}. set (run (LazyStar a) st'))"
  by (subst run.simps(8)) auto

lemma strip_prefix_Some: "strip_prefix w s = Some t \<longleftrightarrow> s = w @ t"
  by (induction w s rule: strip_prefix.induct) auto

lemma strip_prefix_Some':
  "Some t = strip_prefix w s \<longleftrightarrow> s = w @ t"
  using strip_prefix_Some[of w s t] by auto

lemma lit_mem: "m \<in> set (lit w st) \<Longrightarrow> rest st = w @ rest m"
  by (auto simp: lit_def rest_def strip_prefix_Some strip_prefix_Some' split: option.splits)

lemma one_char_mem: "m \<in> set (one_char P st) \<Longrightarrow> \<exists>c. P c \<and> rest st = c # rest m"
  by (auto simp: one_char_def rest_def split: list.splits if_splits)

lemma run_shape: "m \<in> set (run r st) \<Longrightarrow> \<exists>u. shape r u \<and> rest st = u @ rest m"
proof (induction r st arbitrary: m rule: run.induct)
  case (1 w st)
  then have "rest st = w @ rest m" by (simp add: lit_mem)
  then show ?case by simp
next
  case (2 cs st)
  then have "m \<in> set (one_char (\<lambda>c. list_ex (\<lambda>k. in_class k c) cs) st)" by simp
  from one_char_mem[OF this] obtain c
    where "list_ex (\<lambda>k. in_class k c) cs" "rest st = c # rest m" by blast
  then show ?case by (intro exI[of _ "[c]"]) simp
next
  case (3 cs st)
  then have "m \<in> set (one_char (\<lambda>c. \<not> list_ex (\<lambda>k. in_class k c) cs) st)" by simp
  from one_char_mem[OF this] obtain c
    where "\<not> list_ex (\<lambda>k. in_class k c) cs" "rest st = c # rest m" by blast
  then show ?case by (intro exI[of _ "[c]"]) simp
next
  case (4 st)
  then have "m \<in> set (one_char (\<lambda>c. c \<noteq> CHR 0x0A) st)" by simp
  from one_char_mem[OF this] obtain c
    where "c \<noteq> CHR 0x0A" "rest st = c # rest m" by blast
  then show ?case by (intro exI[of _ "[c]"]) simp
next
  case (5 a b st)
  from 5(3) obtain st' where a: "st' \<in> set (run a st)" and b: "m \<in> set (run b st')"
    by auto
  from 5(1)[OF a] obtain x where x: "shape a x" "rest st = x @ rest st'" by blast
  from 5(2)[OF a b] obtain y where y: "shape b y" "rest st' = y @ rest m" by blast
  from x y show ?case by (intro exI[of _ "x @ y"]) auto
next
  case (6 a b st)
  from 6(3) consider "m \<in> set (run a st)" | "m \<in> set (run b st)" by auto
  then show ?case
  proof cases
    case 1
    from 6(1)[OF this] show ?thesis by auto
  next
    case 2
    from 6(2)[OF this] show ?thesis by auto
  qed
next
  case (7 a st)
  from 7(3) consider "m = st"
    | st' where "st' \<in> set (run a st)" "shorter st st'" "m \<in> set (run (Star a) st')"
    by (subst (asm) run_Star) auto
  then show ?case
  proof cases
    case 1 then show ?thesis by simp
  next
    case 2
    from 7(1)[OF 2(1)] obtain x where "rest st = x @ rest st'" by blast
    moreover from 7(2)[of st' m] 2 obtain y where "rest st' = y @ rest m" by auto
    ultimately show ?thesis by simp
  qed
next
  case (8 a st)
  from 8(3) consider "m = st"
    | st' where "st' \<in> set (run a st)" "shorter st st'" "m \<in> set (run (LazyStar a) st')"
    by (subst (asm) run_LazyStar) auto
  then show ?case
  proof cases
    case 1 then show ?thesis by simp
  next
    case 2
    from 8(1)[OF 2(1)] obtain x where "rest st = x @ rest st'" by blast
    moreover from 8(2)[of st' m] 2 obtain y where "rest st' = y @ rest m" by auto
    ultimately show ?thesis by simp
  qed
next
  case (9 n a st)
  from 9(2) obtain m' where m': "m' \<in> set (run a st)" "m = capture n st m'" by auto
  from 9(1)[OF m'(1)] obtain u where "shape a u" "rest st = u @ rest m'" by blast
  moreover have "rest m = rest m'" by (simp add: m'(2) capture_def rest_def)
  ultimately show ?case by auto
next
  case (10 n st)
  then obtain w where "m \<in> set (lit w st)" by (auto split: option.splits)
  then have "rest st = w @ rest m" by (rule lit_mem)
  then show ?case by simp
next
  case (11 st)
  then have "m = st" by (auto split: if_splits)
  then show ?case by simp
next
  case (12 st)
  then have "m = st" by (auto split: if_splits)
  then show ?case by simp
qed

lemma suitable_shape: "suitable r url \<Longrightarrow> \<exists>u t. shape r u \<and> url = u @ t"
proof -
  assume "suitable r url"
  then obtain m where "m \<in> set (run r (None, url, []))"
    by (auto simp: suitable_def re_match_def split: list.splits)
  from run_shape[OF this] show ?thesis by (auto simp: rest_def)
qed

lemma shape_langs: "shape ARTE_LANGUAGES u = (u \<in> set lang_codes)"
  by (auto simp: ARTE_LANGUAGES_def lang_codes_def)

text \<open>The patterns accept the URLs of the tests that the source lists for them.\<close>

lemma valid_url_tests:
  "ArteTVIE_suitable ''https://www.arte.tv/en/videos/088501-000-A/mexico-stealing-petrol-to-survive/''"
  "ArteTVIE_suitable ''https://www.arte.tv/pl/videos/100103-000-A/usa-dyskryminacja-na-porodowce/''"
  "ArteTVIE_suitable ''https://api.arte.tv/api/player/v2/config/de/100605-013-A''"
  "ArteTVEmbedIE_suitable ''https://www.arte.tv/player/v3/index.php?json_url=https://api.arte.tv/api/player/v2/config/de/100605-013-A''"
  "ArteTVPlaylistIE_suitable ''https://www.arte.tv/en/videos/RC-016954/earn-a-living/''"
  "ArteTVPlaylistIE_suitable ''https://www.arte.tv/pl/videos/RC-014123/arte-reportage/''"
  "ArteTVCategoryIE_suitable ''https://www.arte.tv/en/videos/politics-and-society/''"
  by code_simp+

section \<open>How an accepted URL begins\<close>

lemma site_unique: "site url p \<Longrightarrow> site url q \<Longrightarrow> p = q"
  by (auto simp: site_def)

lemma site_not_api: "site url p \<Longrightarrow> \<not> api_site url"
  by (auto simp: site_def api_site_def)

lemma site_append: "site u p \<Longrightarrow> site (u @ t) (p @ t)"
  by (auto simp: site_def)

lemma api_site_append: "api_site u \<Longrightarrow> api_site (u @ t)"
  by (auto simp: api_site_def)

lemma shape_Seq_Lit: "shape (Seq (Lit w) b) u = (\<exists>r. u = w @ r \<and> shape b r)"
  by auto

lemma shape_Seq_Opt: "shape (Seq (Opt a) b) u = (shape (Seq a b) u \<or> shape b u)"
  by (auto simp: Opt_def)

lemma shape_scheme:
  "shape (Seq (Lit ''http'') (Seq (Opt (Lit ''s'')) (Seq (Lit ''://'') b))) u =
     (\<exists>sch \<in> {''http://'', ''https://''}. \<exists>r. u = sch @ r \<and> shape b r)"
  unfolding shape_Seq_Lit shape_Seq_Opt by auto

lemma shape_www:
  "shape (Seq (Opt (Lit ''www.'')) (Seq (Lit (''arte.tv/'' @ x)) b)) u =
     (\<exists>w \<in> {[], ''www.''}. \<exists>r. u = w @ ''arte.tv/'' @ x @ r \<and> shape b r)"
  unfolding shape_Seq_Lit shape_Seq_Opt by auto

lemma shape_lang_group:
  "shape (Seq (Group n ARTE_LANGUAGES) b) u =
     (\<exists>l \<in> set lang_codes. \<exists>r. u = l @ r \<and> shape b r)"
  by (auto simp: shape_langs)

lemma shape_site:
  assumes "shape (Seq (Lit ''http'') (Seq (Opt (Lit ''s'')) (Seq (Lit ''://'')
             (Seq (Opt (Lit ''www.'')) (Seq (Lit a) b))))) u"
    and a: "a = ''arte.tv/'' @ x"
  obtains r where "site u (x @ r)" "shape b r"
proof -
  from assms(1) obtain sch y where sch: "sch \<in> {''http://'', ''https://''}" "u = sch @ y"
    and y: "shape (Seq (Opt (Lit ''www.'')) (Seq (Lit (''arte.tv/'' @ x)) b)) y"
    unfolding shape_scheme a by blast
  from y obtain w r where w: "w \<in> {[], ''www.''}" "y = w @ ''arte.tv/'' @ x @ r" "shape b r"
    unfolding shape_www by blast
  have "site u (x @ r)"
    unfolding site_def using sch w by blast
  with w(3) that show ?thesis by blast
qed

lemma embed_shape:
  assumes "ArteTVEmbedIE_suitable url"
  shows "\<exists>t. site url (''player/v'' @ t)"
proof -
  from suitable_shape[OF assms[unfolded ArteTVEmbedIE_suitable_def]]
  obtain u t where u: "shape ArteTVEmbedIE_VALID_URL u" and url: "url = u @ t" by blast
  from u[unfolded ArteTVEmbedIE_VALID_URL_def seqs.simps]
  obtain r where "site u (''player/v'' @ r)"
    by (rule shape_site[where x = "''player/v''"]) simp
  from site_append[OF this, of t] show ?thesis unfolding url by auto
qed

lemma playlist_shape:
  assumes "ArteTVPlaylistIE_suitable url"
  shows "\<exists>l \<in> set lang_codes. \<exists>t. site url (l @ ''/videos/R'' @ t)"
proof -
  from suitable_shape[OF assms[unfolded ArteTVPlaylistIE_suitable_def]]
  obtain u t where u: "shape ArteTVPlaylistIE_VALID_URL u" and url: "url = u @ t" by blast
  from u[unfolded ArteTVPlaylistIE_VALID_URL_def seqs.simps]
  obtain r where r: "site u ([] @ r)"
    "shape (Seq (Group ''lang'' ARTE_LANGUAGES)
          (Seq (Lit ''/videos/'') (Group ''id'' (Seq (Lit ''RC-'') (rep 6 (In [Digit])))))) r"
    by (rule shape_site[where x = "[]"]) simp
  from r(2) obtain l r' where l: "l \<in> set lang_codes" "r = l @ ''/videos/R'' @ r'"
    unfolding shape_lang_group shape_Seq_Lit by auto
  from site_append[OF r(1), of t] l show ?thesis unfolding url by auto
qed

lemma category_shape:
  assumes "suitable ArteTVCategoryIE_VALID_URL url"
  shows "\<exists>l \<in> set lang_codes. \<exists>t. site url (l @ ''/videos/'' @ t)"
proof -
  from suitable_shape[OF assms]
  obtain u t where u: "shape ArteTVCategoryIE_VALID_URL u" and url: "url = u @ t" by blast
  from u[unfolded ArteTVCategoryIE_VALID_URL_def seqs.simps]
  obtain r b where r: "site u ([] @ r)"
    "shape (Seq (Group ''lang'' ARTE_LANGUAGES) (Seq (Lit ''/videos/'') b)) r"
    by (rule shape_site[where x = "[]"]) simp
  from r(2) obtain l r' where l: "l \<in> set lang_codes" "r = l @ ''/videos/'' @ r'"
    unfolding shape_lang_group shape_Seq_Lit by auto
  from site_append[OF r(1), of t] l show ?thesis unfolding url by auto
qed

lemma shape_SeqE:
  assumes "shape (Seq a b) u"
  obtains x y where "u = x @ y" "shape a x" "shape b y"
  using assms by auto

lemma shape_rep_digits:
  "shape (rep (Suc (Suc n)) (In [Digit])) x \<Longrightarrow> \<exists>d t. is_digit d \<and> x = d # t"
  by auto

lemma shape_VIDEO_ID:
  assumes "shape VIDEO_ID u"
  shows "\<exists>d t. is_digit d \<and> u = d # t"
proof -
  have six: "(6::nat) = Suc (Suc 4)" by simp
  from assms obtain x y where "u = x @ y" "shape (rep 6 (In [Digit])) x"
    unfolding VIDEO_ID_def seqs.simps by (rule shape_SeqE)
  moreover from this(2) obtain d t where "is_digit d" "x = d # t"
    unfolding six using shape_rep_digits by blast
  ultimately show ?thesis by auto
qed

lemma video_shape:
  assumes "ArteTVIE_suitable url"
  shows "(\<exists>l \<in> set lang_codes. \<exists>d t. is_digit d \<and> site url (l @ ''/videos/'' @ d # t))
         \<or> api_site url"
proof -
  from suitable_shape[OF assms[unfolded ArteTVIE_suitable_def]]
  obtain u t where u: "shape ArteTVIE_VALID_URL u" and url: "url = u @ t" by blast
  let ?A = "Seq (Opt (Lit ''www.'')) (Seq (Lit ''arte.tv/'')
              (Seq (Group ''lang'' ARTE_LANGUAGES) (Lit ''/videos'')))"
  let ?B = "seqs [Lit ''api.arte.tv/api/player/v'', Plus (In [Digit]), Lit ''/config/'',
                  Group ''lang_2'' ARTE_LANGUAGES]"
  from u obtain sch y where sch: "sch \<in> {''http://'', ''https://''}" "u = sch @ y"
    and y: "shape (Seq (Alt ?A ?B) (Seq (Lit ''/'') (Group ''id'' VIDEO_ID))) y"
    unfolding ArteTVIE_VALID_URL_def seqs.simps shape_scheme by blast
  from y obtain x z0 where x: "y = x @ z0" "shape (Alt ?A ?B) x"
    and z0: "shape (Seq (Lit ''/'') (Group ''id'' VIDEO_ID)) z0"
    by (rule shape_SeqE)
  from z0 obtain z where z: "z0 = ''/'' @ z" "shape VIDEO_ID z"
    unfolding shape_Seq_Lit by auto
  from x z have xz: "y = x @ ''/'' @ z" "shape ?A x \<or> shape ?B x" "shape VIDEO_ID z"
    by auto
  from shape_VIDEO_ID[OF xz(3)] obtain d z' where d: "is_digit d" "z = d # z'" by blast
  from xz(2) show ?thesis
  proof
    assume "shape ?A x"
    then have "shape (Seq (Opt (Lit ''www.'')) (Seq (Lit (''arte.tv/'' @ []))
              (Seq (Group ''lang'' ARTE_LANGUAGES) (Lit ''/videos'')))) x" by simp
    then obtain w r where w: "w \<in> {[], ''www.''}" "x = w @ ''arte.tv/'' @ [] @ r"
      and r: "shape (Seq (Group ''lang'' ARTE_LANGUAGES) (Lit ''/videos'')) r"
      unfolding shape_www by blast
    from r obtain l where l: "l \<in> set lang_codes" "r = l @ ''/videos''"
      unfolding shape_lang_group by auto
    have "site u (l @ ''/videos/'' @ d # z')"
      unfolding site_def using sch w l xz(1) d(2) by auto
    from site_append[OF this, of t] l(1) d(1) show ?thesis unfolding url by auto
  next
    assume "shape ?B x"
    then obtain r where "x = ''api.arte.tv/'' @ r"
      unfolding seqs.simps shape_Seq_Lit by auto
    then have "api_site u" unfolding api_site_def using sch xz(1) by auto
    from api_site_append[OF this] show ?thesis unfolding url by blast
  qed
qed

section \<open>The patterns exclude one another\<close>

lemma video_not_embed: "ArteTVIE_suitable url \<Longrightarrow> \<not> ArteTVEmbedIE_suitable url"
proof
  assume v: "ArteTVIE_suitable url" and e: "ArteTVEmbedIE_suitable url"
  from embed_shape[OF e] obtain t where t: "site url (''player/v'' @ t)" by blast
  from video_shape[OF v] show False
  proof
    assume "\<exists>l \<in> set lang_codes. \<exists>d t. is_digit d \<and> site url (l @ ''/videos/'' @ d # t)"
    then obtain l d t' where l: "l \<in> set lang_codes" "site url (l @ ''/videos/'' @ d # t')"
      by blast
    from site_unique[OF t l(2)] l(1) show False by (auto simp: lang_codes_def)
  next
    assume "api_site url"
    with site_not_api[OF t] show False by blast
  qed
qed

lemma video_not_playlist: "ArteTVIE_suitable url \<Longrightarrow> \<not> ArteTVPlaylistIE_suitable url"
proof
  assume v: "ArteTVIE_suitable url" and p: "ArteTVPlaylistIE_suitable url"
  from playlist_shape[OF p] obtain k t where
    k: "k \<in> set lang_codes" "site url (k @ ''/videos/R'' @ t)" by blast
  from video_shape[OF v] show False
  proof
    assume "\<exists>l \<in> set lang_codes. \<exists>d t. is_digit d \<and> site url (l @ ''/videos/'' @ d # t)"
    then obtain l d t' where l: "l \<in> set lang_codes" "is_digit d"
      "site url (l @ ''/videos/'' @ d # t')" by blast
    from site_unique[OF k(2) l(3)] k(1) l(1) l(2) show False
      by (auto simp: lang_codes_def is_digit_def)
  next
    assume "api_site url"
    with site_not_api[OF k(2)] show False by blast
  qed
qed

lemma embed_not_playlist: "ArteTVEmbedIE_suitable url \<Longrightarrow> \<not> ArteTVPlaylistIE_suitable url"
proof
  assume e: "ArteTVEmbedIE_suitable url" and p: "ArteTVPlaylistIE_suitable url"
  from embed_shape[OF e] obtain t where t: "site url (''player/v'' @ t)" by blast
  from playlist_shape[OF p] obtain k t' where
    k: "k \<in> set lang_codes" "site url (k @ ''/videos/R'' @ t')" by blast
  from site_unique[OF t k(2)] k(1) show False by (auto simp: lang_codes_def)
qed

lemma category_not_embed:
  "suitable ArteTVCategoryIE_VALID_URL url \<Longrightarrow> \<not> ArteTVEmbedIE_suitable url"
proof
  assume c: "suitable ArteTVCategoryIE_VALID_URL url" and e: "ArteTVEmbedIE_suitable url"
  from embed_shape[OF e] obtain t where t: "site url (''player/v'' @ t)" by blast
  from category_shape[OF c] obtain k t' where
    k: "k \<in> set lang_codes" "site url (k @ ''/videos/'' @ t')" by blast
  from site_unique[OF t k(2)] k(1) show False by (auto simp: lang_codes_def)
qed

section \<open>URLs of the video pages\<close>

lemma fullmatch_shape: "re_fullmatch r s \<Longrightarrow> shape r s"
proof -
  assume "re_fullmatch r s"
  then obtain m where m: "m \<in> set (run r (None, s, []))" "rest m = []"
    by (auto simp: re_fullmatch_def list_ex_iff)
  from run_shape[OF m(1)] m(2) show ?thesis by (auto simp: rest_def)
qed

lemma shape_VIDEO_ID_full:
  assumes "shape VIDEO_ID u"
  shows "\<exists>d1 d2 d3 d4 d5 d6 e1 e2 e3 c.
           u = [d1, d2, d3, d4, d5, d6, CHR ''-'', e1, e2, e3, CHR ''-'', c] \<and>
           is_digit d1 \<and> is_digit d2 \<and> is_digit d3 \<and> is_digit d4 \<and> is_digit d5 \<and>
           is_digit d6 \<and> is_digit e1 \<and> is_digit e2 \<and> is_digit e3 \<and>
           (c = CHR ''A'' \<or> c = CHR ''F'')"
  using assms by (auto simp: VIDEO_ID_def eval_nat_numeral)

lemma video_id_run:
  assumes "is_digit d1" "is_digit d2" "is_digit d3" "is_digit d4" "is_digit d5"
    "is_digit d6" "is_digit e1" "is_digit e2" "is_digit e3" "c = CHR ''A'' \<or> c = CHR ''F''"
  shows "run (Group ''id'' VIDEO_ID)
           (p, [d1, d2, d3, d4, d5, d6, CHR ''-'', e1, e2, e3, CHR ''-'', c] @ t, g) \<noteq> []"
  using assms
  by (auto simp: VIDEO_ID_def eval_nat_numeral one_char_def lit_def rest_def groups_def)

lemma video_url_suitable:
  assumes l: "l \<in> set lang_codes"
    and ds: "is_digit d1" "is_digit d2" "is_digit d3" "is_digit d4" "is_digit d5"
    "is_digit d6" "is_digit e1" "is_digit e2" "is_digit e3" "c = CHR ''A'' \<or> c = CHR ''F''"
  shows "ArteTVIE_suitable (''https://www.arte.tv/'' @ l @ ''/videos/'' @
           [d1, d2, d3, d4, d5, d6, CHR ''-'', e1, e2, e3, CHR ''-'', c])"
proof -
  let ?vid = "[d1, d2, d3, d4, d5, d6, CHR ''-'', e1, e2, e3, CHR ''-'', c]"
  have id: "run (Group ''id'' VIDEO_ID) (p, ?vid, g) \<noteq> []" for p g
    using video_id_run[OF ds, of p "[]" g] by simp
  from l have "run ArteTVIE_VALID_URL
          (None, ''https://www.arte.tv/'' @ l @ ''/videos/'' @ ?vid, []) \<noteq> []"
    using id
    by (auto simp: lang_codes_def ArteTVIE_VALID_URL_def ARTE_LANGUAGES_def Opt_def
        lit_def rest_def groups_def capture_def)
  then show ?thesis
    by (simp add: ArteTVIE_suitable_def suitable_def re_match_def split: list.splits)
qed

section \<open>Facts about the resolution of a video\<close>

lemma getitem_error: "getitem v k = Inl e \<Longrightarrow> e = KeyError k \<or> e = TypeError"
  by (cases v) (auto split: option.splits)

lemma getitem_lookup_error: "getitem v k = Inl e \<Longrightarrow> is_lookup_error e"
  by (auto dest: getitem_error)

lemma getitem0_lookup_error: "getitem0 v = Inl e \<Longrightarrow> is_lookup_error e"
  by (cases v rule: getitem0.cases) auto

lemma iter_lookup_error: "iter v = Inl e \<Longrightarrow> is_lookup_error e"
  by (cases v) auto

lemma bind_result_Inl:
  "bind_result x f = Inl e \<longleftrightarrow> x = Inl e \<or> (\<exists>a. x = Inr a \<and> f a = Inl e)"
  by (auto simp: bind_result_def split: sum.splits)

lemma bind_result_Inr:
  "bind_result x f = Inr b \<longleftrightarrow> (\<exists>a. x = Inr a \<and> f a = Inr b)"
  by (auto simp: bind_result_def split: sum.splits)

lemma bind_result_simps [simp]:
  "bind_result (Inl e) f = Inl e" "bind_result (Inr a) f = f a"
  by (simp_all add: bind_result_def)

lemma build_format_lookup_error: "build_format s = Inl e \<Longrightarrow> is_lookup_error e"
  by (auto simp: build_format_def bind_result_Inl dest: getitem_lookup_error)

lemma build_formats_lookup_error: "build_formats ss = Inl e \<Longrightarrow> is_lookup_error e"
  by (induction ss arbitrary: e)
     (auto simp: bind_result_Inl dest: build_format_lookup_error)

lemma field2_lookup_error: "field2 v k1 k2 = Inl e \<Longrightarrow> is_lookup_error e"
  by (auto simp: field2_def bind_result_Inl dest: getitem_lookup_error)

lemma suitable_match: "ArteTVIE_suitable url \<Longrightarrow> \<exists>m. re_match ArteTVIE_VALID_URL url = Some m"
  by (auto simp: ArteTVIE_suitable_def suitable_def)

lemma real_extract_fetched:
  assumes "ArteTVIE_suitable url"
  shows "\<exists>video_id. ArteTVIE_real_extract f (\<lambda>u i. Inr info) url = extract_info f video_id info"
  using suitable_match[OF assms] by (auto simp: ArteTVIE_real_extract_def Let_def)

lemma extract_info_no_attributes:
  assumes "\<not> has_attributes_object info"
  shows "extract_info f video_id info \<in>
           {Inl (KeyError ''data''), Inl (KeyError ''attributes''), Inl TypeError}"
proof (cases "attributes_of info")
  case (Inl e)
  then have "e = KeyError ''data'' \<or> e = KeyError ''attributes'' \<or> e = TypeError"
    by (auto simp: attributes_of_def bind_result_Inl dest: getitem_error)
  moreover from Inl have "extract_info f video_id info = Inl e"
    by (auto simp: attributes_of_def extract_info_def bind_result_Inl)
  ultimately show ?thesis by auto
next
  case (Inr a)
  with assms have "\<not> is_dict a" by (simp add: has_attributes_object_def)
  then have "getitem a ''rights'' = Inl TypeError" by (cases a) auto
  with Inr have "extract_info f video_id info = Inl TypeError"
    by (auto simp: attributes_of_def extract_info_def bind_result_Inr)
  then show ?thesis by simp
qed

lemma failedE: "failed x \<Longrightarrow> \<exists>e. x = Inl e"
  by (cases x) (auto simp: failed_def)

lemma metadata_tail:
  assumes "failed (field2 attributes ''metadata'' ''providerId'') \<or>
           failed (field2 attributes ''metadata'' ''title'') \<or>
           failed (field2 attributes ''metadata'' ''description'') \<or>
           failed (first_image attributes)"
  shows "\<exists>e. is_lookup_error e \<and>
     bind_result (getitem attributes ''metadata'') (\<lambda>m1.
     bind_result (getitem m1 ''providerId'') (\<lambda>provider_id.
     bind_result (getitem attributes ''metadata'') (\<lambda>m2.
     bind_result (getitem m2 ''title'') (\<lambda>title.
     bind_result (getitem attributes ''metadata'') (\<lambda>m3.
     bind_result (getitem m3 ''description'') (\<lambda>description.
     bind_result (getitem attributes ''metadata'') (\<lambda>m4.
     bind_result (getitem m4 ''images'') (\<lambda>images.
     bind_result (getitem0 images) (\<lambda>image.
     bind_result (getitem image ''url'') (\<lambda>thumbnail.
       Inr (k provider_id title description thumbnail))))))))))) = Inl e"
proof (cases "getitem attributes ''metadata''")
  case (Inl e)
  then show ?thesis by (auto dest: getitem_lookup_error)
next
  case m: (Inr m)
  show ?thesis
  proof (cases "getitem m ''providerId''")
    case (Inl e)
    with m show ?thesis by (auto dest: getitem_lookup_error)
  next
    case p: (Inr p)
    show ?thesis
    proof (cases "getitem m ''title''")
      case (Inl e)
      with m p show ?thesis by (auto dest: getitem_lookup_error)
    next
      case t: (Inr t)
      show ?thesis
      proof (cases "getitem m ''description''")
        case (Inl e)
        with m p t show ?thesis by (auto dest: getitem_lookup_error)
      next
        case d: (Inr d)
        from assms m p t d have "failed (first_image attributes)"
          by (simp add: field2_def failed_def)
        then obtain e where e: "first_image attributes = Inl e" by (auto dest: failedE)
        then have "is_lookup_error e"
          by (auto simp: first_image_def bind_result_Inl
              dest: field2_lookup_error getitem0_lookup_error)
        moreover from e m have
          "bind_result (getitem m ''images'') (\<lambda>images. bind_result (getitem0 images) g) = Inl e"
          for g :: "json \<Rightarrow> error + 'b"
          by (auto simp: first_image_def field2_def bind_result_Inl)
        ultimately show ?thesis using m p t d by auto
      qed
    qed
  qed
qed

lemma extract_info_required:
  assumes a: "attributes_of info = Inr attributes"
    and miss: "failed (field2 attributes ''rights'' ''begin'') \<or>
           failed (field2 attributes ''metadata'' ''providerId'') \<or>
           failed (field2 attributes ''metadata'' ''title'') \<or>
           failed (field2 attributes ''metadata'' ''description'') \<or>
           failed (first_image attributes)"
  shows "\<exists>e. extract_info f video_id info = Inl e \<and>
           (is_lookup_error e \<or>
            (\<exists>b. field2 attributes ''rights'' ''begin'' = Inr b \<and> f b = Inl e))"
proof -
  from a obtain d where d: "getitem info ''data'' = Inr d" "getitem d ''attributes'' = Inr attributes"
    by (auto simp: attributes_of_def bind_result_Inr)
  show ?thesis
  proof (cases "field2 attributes ''rights'' ''begin''")
    case (Inl e)
    then consider "getitem attributes ''rights'' = Inl e"
      | r where "getitem attributes ''rights'' = Inr r" "getitem r ''begin'' = Inl e"
      by (auto simp: field2_def bind_result_Inl)
    then have "extract_info f video_id info = Inl e"
      using d by cases (simp_all add: extract_info_def)
    with field2_lookup_error[OF Inl] show ?thesis by blast
  next
    case b: (Inr b)
    then obtain r where r: "getitem attributes ''rights'' = Inr r" "getitem r ''begin'' = Inr b"
      by (auto simp: field2_def bind_result_Inr)
    show ?thesis
    proof (cases "f b")
      case (Inl e)
      then have "extract_info f video_id info = Inl e"
        using d r by (simp add: extract_info_def)
      with b Inl show ?thesis by blast
    next
      case u: (Inr upload_date)
      let ?S = "bind_result (getitem attributes ''streams'') (\<lambda>streams.
                bind_result (iter streams) build_formats)"
      show ?thesis
      proof (cases ?S)
        case (Inl e)
        then have "is_lookup_error e"
          by (auto simp: bind_result_Inl
              dest: getitem_lookup_error iter_lookup_error build_formats_lookup_error)
        moreover from Inl consider "getitem attributes ''streams'' = Inl e"
          | s where "getitem attributes ''streams'' = Inr s" "iter s = Inl e"
          | s sl where "getitem attributes ''streams'' = Inr s" "iter s = Inr sl"
              "build_formats sl = Inl e"
          by (auto simp: bind_result_Inl)
        then have "extract_info f video_id info = Inl e"
          using d r u by cases (simp_all add: extract_info_def Let_def)
        ultimately show ?thesis by blast
      next
        case (Inr fs)
        then obtain s sl where s: "getitem attributes ''streams'' = Inr s" "iter s = Inr sl"
          "build_formats sl = Inr fs"
          by (auto simp: bind_result_Inr)
        from miss b have "failed (field2 attributes ''metadata'' ''providerId'') \<or>
           failed (field2 attributes ''metadata'' ''title'') \<or>
           failed (field2 attributes ''metadata'' ''description'') \<or>
           failed (first_image attributes)"
          by (simp add: failed_def)
        from metadata_tail[OF this, where k = "\<lambda>provider_id title description thumbnail.
             \<lparr>info_id = (if truthy provider_id then provider_id else json_of video_id),
                  info_title = title,
                  info_description = description,
                  info_upload_date = upload_date,
                  info_thumbnail = thumbnail,
                  info_formats = sort_formats fs\<rparr>"]
        obtain e where e: "is_lookup_error e"
          "bind_result (getitem attributes ''metadata'') (\<lambda>m1.
           bind_result (getitem m1 ''providerId'') (\<lambda>provider_id.
           bind_result (getitem attributes ''metadata'') (\<lambda>m2.
           bind_result (getitem m2 ''title'') (\<lambda>title.
           bind_result (getitem attributes ''metadata'') (\<lambda>m3.
           bind_result (getitem m3 ''description'') (\<lambda>description.
           bind_result (getitem attributes ''metadata'') (\<lambda>m4.
           bind_result (getitem m4 ''images'') (\<lambda>images.
           bind_result (getitem0 images) (\<lambda>image.
           bind_result (getitem image ''url'') (\<lambda>thumbnail.
             Inr \<lparr>info_id = (if truthy provider_id then provider_id else json_of video_id),
                  info_title = title,
                  info_description = description,
                  info_upload_date = upload_date,
                  info_thumbnail = thumbnail,
                  info_formats = sort_formats fs\<rparr>)))))))))) = Inl e"
          by (elim exE conjE)
        have "extract_info f video_id info = Inl e"
          unfolding extract_info_def Let_def using d r u s e(2) by simp
        with e(1) show ?thesis by blast
      qed
    qed
  qed
qed

text \<open>
  No format that the loop builds has a rank, so the sort leaves the list as it is: the
  formats are returned in the order of the streams, whatever their quality codes.
\<close>

lemma build_format_rank: "build_format s = Inr f \<Longrightarrow> format_rank f = - 1"
  by (auto simp: build_format_def bind_result_Inr format_rank_def)

lemma build_formats_rank: "build_formats ss = Inr fs \<Longrightarrow> map format_rank fs = replicate (length fs) (- 1)"
  by (induction ss arbitrary: fs) (auto simp: bind_result_Inr dest: build_format_rank)

lemma build_formats_sort: "build_formats ss = Inr fs \<Longrightarrow> sort_formats fs = fs"
  unfolding sort_formats_def
  by (rule sort_key_id_if_sorted) (simp add: build_formats_rank sorted_replicate)

lemma real_extract_groups:
  assumes "video_groups u = Some g" and "video_groups v = Some g"
  shows "ArteTVIE_real_extract f d u = ArteTVIE_real_extract f d v"
  using assms
  by (auto simp: video_groups_def ArteTVIE_real_extract_def Let_def split: option.splits)

section \<open>Facts about the crawl of a category and the aggregation of a playlist\<close>

lemma category_match:
  "ArteTVCategoryIE_suitable url \<Longrightarrow> \<exists>m. re_match ArteTVCategoryIE_VALID_URL url = Some m"
  by (auto simp: ArteTVCategoryIE_suitable_def suitable_def)

lemma keep_link_not_self: "keep_link url video \<Longrightarrow> video \<noteq> url"
  by (simp add: keep_link_def)

lemma category_items_not_self: "url \<notin> set (category_items lang url webpage)"
  by (auto simp: category_items_def dest: keep_link_not_self)

lemma playlist_from_matches_urls:
  "map ur_url (cr_entries (playlist_from_matches items pid t)) = items"
  by (simp add: playlist_from_matches_def playlist_result_def url_result_of_def comp_def)

lemma playlist_match:
  "ArteTVPlaylistIE_suitable url \<Longrightarrow> \<exists>m. re_match ArteTVPlaylistIE_VALID_URL url = Some m"
  by (auto simp: ArteTVPlaylistIE_suitable_def suitable_def)

lemma dict_get_dict: "is_dict v \<Longrightarrow> dict_get v k = Inr (entry_field v k)"
  by (cases v) (auto simp: entry_field_def split: option.splits)

lemma playlist_entry_of_target:
  "\<exists>entry. playlist_entry_of url_or_none int_or_none v = Inr entry \<and>
           map_option pe_url entry = spec_target_url url_or_none v"
proof (cases "is_dict v")
  case False
  then show ?thesis
    by (simp add: playlist_entry_of_def spec_target_url_def spec_valid_url_def)
next
  case True
  show ?thesis
  proof (cases "str_truthy (url_or_none (entry_field v ''url''))")
    case direct: True
    then obtain u where "url_or_none (entry_field v ''url'') = Some u"
      by (auto simp: str_truthy_def split: option.splits)
    with True direct show ?thesis
      by (simp add: playlist_entry_of_def dict_get_dict Let_def str_or_def py_str_def
          spec_target_url_def spec_valid_url_def)
  next
    case no_direct: False
    show ?thesis
    proof (cases "str_truthy (url_or_none (entry_field v ''jsonUrl''))")
      case alt: True
      then obtain u where "url_or_none (entry_field v ''jsonUrl'') = Some u"
        by (auto simp: str_truthy_def split: option.splits)
      with True no_direct alt show ?thesis
        by (simp add: playlist_entry_of_def dict_get_dict Let_def str_or_def py_str_def
            spec_target_url_def spec_valid_url_def)
    next
      case False
      with True no_direct show ?thesis
        by (simp add: playlist_entry_of_def dict_get_dict Let_def str_or_def
            spec_target_url_def spec_valid_url_def)
    qed
  qed
qed

lemma playlist_entries_targets:
  "\<exists>entries. playlist_entries url_or_none int_or_none vs = Inr entries \<and>
             map pe_url entries = List.map_filter (spec_target_url url_or_none) vs"
proof (induction vs)
  case Nil
  show ?case by (simp add: List.map_filter_simps)
next
  case (Cons v vs)
  from playlist_entry_of_target[of url_or_none int_or_none v] obtain entry where
    e: "playlist_entry_of url_or_none int_or_none v = Inr entry"
       "map_option pe_url entry = spec_target_url url_or_none v" by blast
  from Cons obtain entries where
    es: "playlist_entries url_or_none int_or_none vs = Inr entries"
        "map pe_url entries = List.map_filter (spec_target_url url_or_none) vs" by blast
  from e(1) e(2)[symmetric] es show ?case
    by (cases entry) (auto simp: List.map_filter_simps)
qed

section \<open>Claims\<close>

text \<open>
  C1. For every URL, at most one of the predicates \<open>suitable\<close> of \<^verbatim>\<open>ArteTVIE\<close> (Video),
  \<^verbatim>\<open>ArteTVEmbedIE\<close> (Embed) and \<^verbatim>\<open>ArteTVPlaylistIE\<close> (Playlist) holds, and
  \<^verbatim>\<open>ArteTVCategoryIE.suitable\<close> holds only when the other three are all false.
\<close>

theorem suitable_exclusive:
  "\<not> (ArteTVIE_suitable url \<and> ArteTVEmbedIE_suitable url) \<and>
   \<not> (ArteTVIE_suitable url \<and> ArteTVPlaylistIE_suitable url) \<and>
   \<not> (ArteTVEmbedIE_suitable url \<and> ArteTVPlaylistIE_suitable url) \<and>
   (ArteTVCategoryIE_suitable url \<longrightarrow>
      \<not> ArteTVIE_suitable url \<and> \<not> ArteTVEmbedIE_suitable url \<and>
      \<not> ArteTVPlaylistIE_suitable url)"
  using video_not_embed[of url] video_not_playlist[of url] embed_not_playlist[of url]
    category_not_embed[of url]
  by (auto simp: ArteTVCategoryIE_suitable_def)

text \<open>The category page of the extractor's own test is claimed by Category alone.\<close>

theorem suitable_exclusive_witness:
  "ArteTVCategoryIE_suitable ''https://www.arte.tv/en/videos/politics-and-society/'' \<and>
   \<not> ArteTVIE_suitable ''https://www.arte.tv/en/videos/politics-and-society/'' \<and>
   \<not> ArteTVEmbedIE_suitable ''https://www.arte.tv/en/videos/politics-and-society/'' \<and>
   \<not> ArteTVPlaylistIE_suitable ''https://www.arte.tv/en/videos/politics-and-society/''"
proof -
  have "ArteTVCategoryIE_suitable ''https://www.arte.tv/en/videos/politics-and-society/''"
    by code_simp
  with suitable_exclusive[of "''https://www.arte.tv/en/videos/politics-and-society/''"]
  show ?thesis by blast
qed

text \<open>
  C2, on the code. The claim is that the formats returned are sorted ascending by the
  rank of their quality code in the order MQ, HQ, EQ, SQ. The source builds \<open>qfunc\<close> and
  never applies it, and the line that would set the key \<^verbatim>\<open>'quality'\<close> is commented out, so
  no format carries a rank and the list stays in the order of the streams: for the
  streams SQ, MQ the formats come back as SQ, MQ, of ranks 3 and 0.
\<close>

theorem formats_in_stream_order:
  "(case ArteTVIE_real_extract (\<lambda>b. Inr b) (\<lambda>u i. Inr doc_two_streams)
           ''https://www.arte.tv/en/videos/088501-000-A/'' of
      Inl e \<Rightarrow> []
    | Inr r \<Rightarrow> map (\<lambda>f. (fst (format_note f),
                          qualities [''MQ'', ''HQ'', ''EQ'', ''SQ''] (fst (format_note f)),
                          format_quality f))
                (info_formats r))
   = [(JStr ''SQ'', 3, None), (JStr ''MQ'', 0, None)]"
  by code_simp

text \<open>
  C3, as amended. For every language code of \<open>ARTE_LANGUAGES\<close> and every string matching
  the source's id pattern \<^verbatim>\<open>\d{6}-\d{3}-[AF]\<close> (the last letter is A or F), the URL
  \<^verbatim>\<open>https://www.arte.tv/{lang}/videos/{id}\<close> is claimed by Video, and Embed, Playlist and
  Category do not claim it.
\<close>

theorem video_url_classified:
  assumes "re_fullmatch ARTE_LANGUAGES lang" and "re_fullmatch VIDEO_ID vid"
  shows "ArteTVIE_suitable (''https://www.arte.tv/'' @ lang @ ''/videos/'' @ vid) \<and>
         \<not> ArteTVEmbedIE_suitable (''https://www.arte.tv/'' @ lang @ ''/videos/'' @ vid) \<and>
         \<not> ArteTVPlaylistIE_suitable (''https://www.arte.tv/'' @ lang @ ''/videos/'' @ vid) \<and>
         \<not> ArteTVCategoryIE_suitable (''https://www.arte.tv/'' @ lang @ ''/videos/'' @ vid)"
proof -
  let ?url = "''https://www.arte.tv/'' @ lang @ ''/videos/'' @ vid"
  from fullmatch_shape[OF assms(1)] have l: "lang \<in> set lang_codes"
    by (simp only: shape_langs)
  from shape_VIDEO_ID_full[OF fullmatch_shape[OF assms(2)]]
  obtain d1 d2 d3 d4 d5 d6 e1 e2 e3 c where
    vid: "vid = [d1, d2, d3, d4, d5, d6, CHR ''-'', e1, e2, e3, CHR ''-'', c]"
    and ds: "is_digit d1" "is_digit d2" "is_digit d3" "is_digit d4" "is_digit d5"
      "is_digit d6" "is_digit e1" "is_digit e2" "is_digit e3" "c = CHR ''A'' \<or> c = CHR ''F''"
    by blast
  have v: "ArteTVIE_suitable ?url"
    unfolding vid by (rule video_url_suitable[OF l ds])
  from v video_not_embed[of ?url] video_not_playlist[of ?url] show ?thesis
    by (simp add: ArteTVCategoryIE_suitable_def)
qed

text \<open>The URL of the extractor's first test, without its title part.\<close>

theorem video_url_classified_witness:
  "re_fullmatch ARTE_LANGUAGES ''en'' \<and> re_fullmatch VIDEO_ID ''088501-000-A'' \<and>
   ArteTVIE_suitable ''https://www.arte.tv/en/videos/088501-000-A'' \<and>
   \<not> ArteTVEmbedIE_suitable ''https://www.arte.tv/en/videos/088501-000-A'' \<and>
   \<not> ArteTVPlaylistIE_suitable ''https://www.arte.tv/en/videos/088501-000-A'' \<and>
   \<not> ArteTVCategoryIE_suitable ''https://www.arte.tv/en/videos/088501-000-A''"
proof -
  have l: "re_fullmatch ARTE_LANGUAGES ''en''" by code_simp
  have v: "re_fullmatch VIDEO_ID ''088501-000-A''" by code_simp
  from video_url_classified[OF l v] l v show ?thesis by simp
qed

text \<open>
  C3 as the specification states it, with any uppercase letter at the end of the id, fails:
  the id \<^verbatim>\<open>000000-000-B\<close> matches the specification's pattern, Video does not claim its
  URL, and Category does.
\<close>

theorem video_url_letter_counterexample:
  "re_fullmatch ARTE_LANGUAGES ''fr'' \<and> re_fullmatch spec_VideoId ''000000-000-B'' \<and>
   \<not> ArteTVIE_suitable (''https://www.arte.tv/'' @ ''fr'' @ ''/videos/'' @ ''000000-000-B'') \<and>
   ArteTVCategoryIE_suitable (''https://www.arte.tv/'' @ ''fr'' @ ''/videos/'' @ ''000000-000-B'')"
  by code_simp

text \<open>
  C4, as amended. In a category crawl with a non-empty list of links and an open-graph
  title \<open>t\<close> that is not empty, the title of the playlist is \<open>t\<close> cut before its last
  \<^verbatim>\<open>|\<close> and trimmed, when that is not empty, and the generic title of the URL otherwise.
  (What happens without an open-graph title is left open: the source then calls
  \<^verbatim>\<open>_html_search_regex\<close> without the page.)
\<close>

theorem category_title:
  assumes "ArteTVCategoryIE_suitable url" and "crawl_items url webpage \<noteq> []"
    and "og_search_title webpage = Some t" and "t \<noteq> []"
  shows "\<exists>r. ArteTVCategoryIE_real_extract (\<lambda>u i. Inr webpage) og_search_title html_title
                generic_title og_search_description url = Inr (Some r) \<and>
              cr_title r = JStr (if strip (rsplit_head t) \<noteq> [] then strip (rsplit_head t)
                                 else generic_title url)"
proof -
  from category_match[OF assms(1)] obtain m where
    m: "re_match ArteTVCategoryIE_VALID_URL url = Some m" by blast
  with assms(2) have items: "category_items (py_str (group m ''lang'')) url webpage \<noteq> []"
    by (simp add: crawl_items_def)
  from assms(3,4) have t: "(if str_truthy (og_search_title webpage)
                         then Inr (og_search_title webpage) else html_title) = Inr (Some t)"
    by (simp add: str_truthy_def)
  show ?thesis
    using m items t
    by (simp add: ArteTVCategoryIE_real_extract_def Let_def str_or_def str_truthy_def
        strip_or_none_def playlist_from_matches_def playlist_result_def json_of_def)
qed

text \<open>
  Two open-graph titles: one with two bars, where the cut is at the last one, and one
  that is blank before its bar, where the generic title is taken. The call for the
  \<^verbatim>\<open><title>\<close> element is given the outcome \<^verbatim>\<open>TypeError\<close>; it is not reached.
\<close>

theorem category_title_witness:
  "ArteTVCategoryIE_suitable ''https://www.arte.tv/en/videos/arts/'' \<and>
   crawl_items ''https://www.arte.tv/en/videos/arts/'' page_video_link \<noteq> [] \<and>
   (\<exists>r. ArteTVCategoryIE_real_extract (\<lambda>u i. Inr page_video_link)
          (\<lambda>w. Some ''Arts | Culture | ARTE'') (Inl TypeError) (\<lambda>u. ''arts'') (\<lambda>w. None)
          ''https://www.arte.tv/en/videos/arts/'' = Inr (Some r) \<and>
        cr_title r = JStr (if strip (rsplit_head ''Arts | Culture | ARTE'') \<noteq> []
                           then strip (rsplit_head ''Arts | Culture | ARTE'')
                           else (\<lambda>u. ''arts'') ''https://www.arte.tv/en/videos/arts/'')) \<and>
   strip (rsplit_head ''Arts | Culture | ARTE'') = ''Arts | Culture'' \<and>
   (\<exists>r. ArteTVCategoryIE_real_extract (\<lambda>u i. Inr page_video_link)
          (\<lambda>w. Some '' | ARTE'') (Inl TypeError) (\<lambda>u. ''arts'') (\<lambda>w. None)
          ''https://www.arte.tv/en/videos/arts/'' = Inr (Some r) \<and>
        cr_title r = JStr (if strip (rsplit_head '' | ARTE'') \<noteq> []
                           then strip (rsplit_head '' | ARTE'')
                           else (\<lambda>u. ''arts'') ''https://www.arte.tv/en/videos/arts/'')) \<and>
   strip (rsplit_head '' | ARTE'') = []"
proof -
  have s: "ArteTVCategoryIE_suitable ''https://www.arte.tv/en/videos/arts/''"
    by code_simp
  have c: "crawl_items ''https://www.arte.tv/en/videos/arts/'' page_video_link \<noteq> []"
    by code_simp
  have t: "(\<lambda>w. Some ''Arts | Culture | ARTE'') page_video_link = Some ''Arts | Culture | ARTE''"
    by simp
  have n: "''Arts | Culture | ARTE'' \<noteq> []"
    by simp
  have e: "strip (rsplit_head ''Arts | Culture | ARTE'') = ''Arts | Culture''"
    by code_simp
  have t': "(\<lambda>w. Some '' | ARTE'') page_video_link = Some '' | ARTE''"
    by simp
  have n': "'' | ARTE'' \<noteq> []"
    by simp
  have e': "strip (rsplit_head '' | ARTE'') = []"
    by code_simp
  from s c category_title[OF s c t n, of "Inl TypeError" "\<lambda>u. ''arts''" "\<lambda>w. None"] e
    category_title[OF s c t' n', of "Inl TypeError" "\<lambda>u. ''arts''" "\<lambda>w. None"] e'
  show ?thesis by (intro conjI)
qed

text \<open>
  C4 as the specification states it fails: the open-graph title, first in the order and
  not empty, is not the title of the playlist. \<^verbatim>\<open>Arts | ARTE\<close> gives the title \<^verbatim>\<open>Arts\<close>,
  since the cut at the last bar and the trimming are applied to it too.
\<close>

theorem category_title_counterexample:
  "(case ArteTVCategoryIE_real_extract (\<lambda>u i. Inr page_video_link)
           (\<lambda>w. Some ''Arts | ARTE'') (Inl TypeError) (\<lambda>u. ''arts'') (\<lambda>w. None)
           ''https://www.arte.tv/en/videos/arts/'' of
      Inr (Some r) \<Rightarrow> cr_title r | _ \<Rightarrow> JNull) = JStr ''Arts'' \<and>
   spec_category_title (Some ''Arts | ARTE'') None ''arts'' = ''Arts | ARTE''"
  by code_simp

text \<open>
  C5. For every fetched configuration document that has no object at
  \<^verbatim>\<open>data\<close>, \<^verbatim>\<open>attributes\<close>, the resolution of a video URL fails: it returns the error of the
  failed lookup to its caller (the \<^verbatim>\<open>KeyError\<close> of the missing key, or the \<^verbatim>\<open>TypeError\<close> of
  a value that is no object), which is what the specification calls
  \<^verbatim>\<open>MalformedResponse\<close>; nothing in \<^verbatim>\<open>_real_extract\<close> catches it.
\<close>

theorem missing_attributes_raises:
  assumes "ArteTVIE_suitable url" and "\<not> has_attributes_object info"
  shows "ArteTVIE_real_extract fromisoformat_date (\<lambda>u i. Inr info) url \<in>
           {Inl (KeyError ''data''), Inl (KeyError ''attributes''), Inl TypeError}"
proof -
  from real_extract_fetched[OF assms(1)] obtain video_id where
    "ArteTVIE_real_extract fromisoformat_date (\<lambda>u i. Inr info) url
       = extract_info fromisoformat_date video_id info" by blast
  with extract_info_no_attributes[OF assms(2)] show ?thesis by simp
qed

text \<open>A document whose \<^verbatim>\<open>data\<close> has no \<^verbatim>\<open>attributes\<close>.\<close>

theorem missing_attributes_raises_witness:
  "ArteTVIE_suitable ''https://www.arte.tv/en/videos/088501-000-A/'' \<and>
   \<not> has_attributes_object (JObj [(''data'', JObj [(''id'', JStr ''088501-000-A'')])]) \<and>
   ArteTVIE_real_extract (\<lambda>b. Inr b)
       (\<lambda>u i. Inr (JObj [(''data'', JObj [(''id'', JStr ''088501-000-A'')])]))
       ''https://www.arte.tv/en/videos/088501-000-A/''
     \<in> {Inl (KeyError ''data''), Inl (KeyError ''attributes''), Inl TypeError}"
proof -
  have s: "ArteTVIE_suitable ''https://www.arte.tv/en/videos/088501-000-A/''"
    by code_simp
  have a: "\<not> has_attributes_object (JObj [(''data'', JObj [(''id'', JStr ''088501-000-A'')])])"
    by code_simp
  from missing_attributes_raises[OF s a] s a show ?thesis by blast
qed

text \<open>
  C6. For every collection document whose \<^verbatim>\<open>videos\<close> is a list, the aggregation
  succeeds whatever the entries are, and the URLs of its entries are, in order, the
  targets of the raw entries that have one: the direct url when \<open>url_or_none\<close> accepts
  it, else the json url when \<open>url_or_none\<close> accepts that; an entry with neither, or one
  that is no object, is dropped and the entries after it are still aggregated. A
  document without the key \<^verbatim>\<open>videos\<close> makes the aggregation fail with the \<^verbatim>\<open>KeyError\<close> of
  that key, the specification's \<^verbatim>\<open>MalformedResponse\<close>.
\<close>

theorem playlist_aggregation:
  assumes "ArteTVPlaylistIE_suitable url"
  shows "(getitem collection ''videos'' = Inr (JArr vs) \<longrightarrow>
           (\<exists>r. ArteTVPlaylistIE_real_extract url_or_none int_or_none
                   (\<lambda>u i. Inr collection) url = Inr r \<and>
                 map pe_url (cr_entries r) = List.map_filter (spec_target_url url_or_none) vs))
         \<and> (map_of kvs ''videos'' = None \<longrightarrow>
              ArteTVPlaylistIE_real_extract url_or_none int_or_none
                (\<lambda>u i. Inr (JObj kvs)) url = Inl (KeyError ''videos''))"
proof (intro conjI impI)
  from playlist_match[OF assms] obtain m where
    m: "re_match ArteTVPlaylistIE_VALID_URL url = Some m" by blast
  {
    assume v: "getitem collection ''videos'' = Inr (JArr vs)"
    then have d: "is_dict collection" by (cases collection) auto
    from playlist_entries_targets[of url_or_none int_or_none vs] obtain entries where
      es: "playlist_entries url_or_none int_or_none vs = Inr entries"
          "map pe_url entries = List.map_filter (spec_target_url url_or_none) vs" by blast
    from m v d es
    show "\<exists>r. ArteTVPlaylistIE_real_extract url_or_none int_or_none
                   (\<lambda>u i. Inr collection) url = Inr r \<and>
                 map pe_url (cr_entries r) = List.map_filter (spec_target_url url_or_none) vs"
      by (simp add: ArteTVPlaylistIE_real_extract_def Let_def dict_get_dict playlist_result_def)
  }
  {
    assume "map_of kvs ''videos'' = None"
    with m show "ArteTVPlaylistIE_real_extract url_or_none int_or_none
                (\<lambda>u i. Inr (JObj kvs)) url = Inl (KeyError ''videos'')"
      by (simp add: ArteTVPlaylistIE_real_extract_def Let_def)
  }
qed

text \<open>The collection of four raw entries, and a document without \<^verbatim>\<open>videos\<close>.\<close>

theorem playlist_aggregation_witness:
  "ArteTVPlaylistIE_suitable ''https://www.arte.tv/en/videos/RC-016954/earn-a-living/'' \<and>
   (\<exists>r. ArteTVPlaylistIE_real_extract only_strings only_ints (\<lambda>u i. Inr collection_four)
          ''https://www.arte.tv/en/videos/RC-016954/earn-a-living/'' = Inr r \<and>
        map pe_url (cr_entries r) =
          [''https://www.arte.tv/en/videos/069790-001-A/'',
           ''https://api.arte.tv/api/player/v2/config/en/069790-002-A'']) \<and>
   ArteTVPlaylistIE_real_extract only_strings only_ints
       (\<lambda>u i. Inr (JObj [(''title'', JStr ''Earn a Living'')]))
       ''https://www.arte.tv/en/videos/RC-016954/earn-a-living/'' = Inl (KeyError ''videos'')"
proof -
  let ?vs = "[JObj [(''url'', JStr ''https://www.arte.tv/en/videos/069790-001-A/''),
                     (''jsonUrl'', JStr ''https://api.arte.tv/api/player/v2/config/en/069790-001-A'')],
               JNull,
               JObj [(''title'', JStr ''no url'')],
               JObj [(''jsonUrl'', JStr ''https://api.arte.tv/api/player/v2/config/en/069790-002-A'')]]"
  have s: "ArteTVPlaylistIE_suitable ''https://www.arte.tv/en/videos/RC-016954/earn-a-living/''"
    by code_simp
  have v: "getitem collection_four ''videos'' = Inr (JArr ?vs)"
    by code_simp
  have t: "List.map_filter (spec_target_url only_strings) ?vs =
          [''https://www.arte.tv/en/videos/069790-001-A/'',
           ''https://api.arte.tv/api/player/v2/config/en/069790-002-A'']"
    by code_simp
  have k: "map_of [(''title'', JStr ''Earn a Living'')] ''videos'' = None"
    by simp
  note agg = playlist_aggregation[OF s, of collection_four ?vs only_strings only_ints
      "[(''title'', JStr ''Earn a Living'')]"]
  from agg v have a: "\<exists>r. ArteTVPlaylistIE_real_extract only_strings only_ints
          (\<lambda>u i. Inr collection_four)
          ''https://www.arte.tv/en/videos/RC-016954/earn-a-living/'' = Inr r \<and>
        map pe_url (cr_entries r) = List.map_filter (spec_target_url only_strings) ?vs"
    by blast
  from agg k have b: "ArteTVPlaylistIE_real_extract only_strings only_ints
       (\<lambda>u i. Inr (JObj [(''title'', JStr ''Earn a Living'')]))
       ''https://www.arte.tv/en/videos/RC-016954/earn-a-living/'' = Inl (KeyError ''videos'')"
    by blast
  from s a[unfolded t] b show ?thesis by (intro conjI)
qed

text \<open>
  C7. For every crawled category page, if no link survives the filter, the crawl returns
  \<^verbatim>\<open>None\<close> (here \<open>Inr None\<close>), which is no collection at all, and so not a collection
  with an empty list of entries (\<open>Inr (Some r)\<close>).
\<close>

theorem empty_crawl_yields_none:
  assumes "ArteTVCategoryIE_suitable url" and "crawl_items url webpage = []"
  shows "ArteTVCategoryIE_real_extract (\<lambda>u i. Inr webpage) og_search_title html_title
           generic_title og_search_description url = Inr None"
proof -
  from category_match[OF assms(1)] obtain m where
    m: "re_match ArteTVCategoryIE_VALID_URL url = Some m" by blast
  with assms(2) have "category_items (py_str (group m ''lang'')) url webpage = []"
    by (simp add: crawl_items_def)
  with m show ?thesis
    by (simp add: ArteTVCategoryIE_real_extract_def Let_def)
qed

text \<open>A page without a link.\<close>

theorem empty_crawl_yields_none_witness:
  "ArteTVCategoryIE_suitable ''https://www.arte.tv/en/videos/arts/'' \<and>
   crawl_items ''https://www.arte.tv/en/videos/arts/'' page_no_link = [] \<and>
   ArteTVCategoryIE_real_extract (\<lambda>u i. Inr page_no_link) (\<lambda>w. Some ''Arts | ARTE'')
       (Inr None) (\<lambda>u. ''arts'') (\<lambda>w. None) ''https://www.arte.tv/en/videos/arts/'' = Inr None"
proof -
  have s: "ArteTVCategoryIE_suitable ''https://www.arte.tv/en/videos/arts/''"
    by code_simp
  have c: "crawl_items ''https://www.arte.tv/en/videos/arts/'' page_no_link = []"
    by code_simp
  from empty_crawl_yields_none[OF s c] s c show ?thesis by (intro conjI)
qed

text \<open>
  C8. For every crawled category page, whatever the fetch and the helpers return, the
  URL of the page is not among the URLs of the entries of the collection returned.
\<close>

theorem crawl_excludes_own_url:
  assumes "ArteTVCategoryIE_real_extract download_webpage og_search_title html_title
             generic_title og_search_description url = Inr (Some r)"
  shows "url \<notin> set (map ur_url (cr_entries r))"
proof -
  from assms obtain m where m: "re_match ArteTVCategoryIE_VALID_URL url = Some m"
    by (auto simp: ArteTVCategoryIE_real_extract_def split: option.splits)
  let ?lang = "py_str (group m ''lang'')"
  from assms m obtain webpage where w: "download_webpage url (group m ''id'') = Inr webpage"
    by (auto simp: ArteTVCategoryIE_real_extract_def Let_def bind_result_Inr)
  let ?items = "category_items ?lang url webpage"
  from assms m w obtain t d where
    "r = playlist_from_matches ?items (group m ''id'') t \<or>
     r = (playlist_from_matches ?items (group m ''id'') t)\<lparr>cr_description := d\<rparr>"
    by (auto simp: ArteTVCategoryIE_real_extract_def Let_def bind_result_Inr
        split: if_splits option.splits)
  then have "map ur_url (cr_entries r) = ?items"
    by (auto simp: playlist_from_matches_urls)
  with category_items_not_self[of url ?lang webpage] show ?thesis by simp
qed

text \<open>A page with a link to itself and a link to a video: the video alone is an entry.\<close>

theorem crawl_excludes_own_url_witness:
  "ArteTVCategoryIE_real_extract (\<lambda>u i. Inr page_self_link) (\<lambda>w. Some ''Arts | ARTE'')
       (Inr None) (\<lambda>u. ''arts'') (\<lambda>w. None) ''https://www.arte.tv/en/videos/arts/''
     = Inr (Some \<lparr>cr_id = JStr ''arts'', cr_title = JStr ''Arts'', cr_description = JNull,
                  cr_entries = [url_result_of ''https://www.arte.tv/en/videos/088501-000-A/''
                                  None None]\<rparr>) \<and>
   ''https://www.arte.tv/en/videos/arts/'' \<notin> set (map ur_url (cr_entries
       \<lparr>cr_id = JStr ''arts'', cr_title = JStr ''Arts'', cr_description = JNull,
        cr_entries = [url_result_of ''https://www.arte.tv/en/videos/088501-000-A/''
                        None None]\<rparr>))"
proof -
  have r: "ArteTVCategoryIE_real_extract (\<lambda>u i. Inr page_self_link) (\<lambda>w. Some ''Arts | ARTE'')
       (Inr None) (\<lambda>u. ''arts'') (\<lambda>w. None) ''https://www.arte.tv/en/videos/arts/''
     = Inr (Some \<lparr>cr_id = JStr ''arts'', cr_title = JStr ''Arts'', cr_description = JNull,
                  cr_entries = [url_result_of ''https://www.arte.tv/en/videos/088501-000-A/''
                                  None None]\<rparr>)"
    by code_simp
  from r crawl_excludes_own_url[OF r] show ?thesis by (intro conjI)
qed

text \<open>
  C9. For every Embed URL whose query carries a parameter \<^verbatim>\<open>json_url\<close> that points at a
  Video endpoint with the id \<open>x\<close>, Embed returns a reference to that URL with the id
  \<open>x\<close> and the extractor \<^verbatim>\<open>ArteTV\<close>, and resolving the reference gives what the
  resolution of any Video URL of the same id (and language) gives.
\<close>

theorem embed_delegates:
  assumes "ArteTVEmbedIE_suitable url"
    and "map_of (parse_query url) ''json_url'' = Some (json_url # others)"
    and "video_groups json_url = Some (Some x, lang)"
    and "video_groups v = Some (Some x, lang)"
  shows "ArteTVEmbedIE_real_extract parse_query url
           = Inr (url_result_of json_url (Some ArteTVIE_ie_key) (Some x)) \<and>
         resolve_embed fromisoformat_date download_json parse_query url
           = ArteTVIE_real_extract fromisoformat_date download_json v"
proof -
  from assms(3) have "match_id ArteTVIE_VALID_URL json_url = Inr (Some x)"
    by (auto simp: video_groups_def match_id_def split: option.splits)
  with assms(2) have e: "ArteTVEmbedIE_real_extract parse_query url
           = Inr (url_result_of json_url (Some ArteTVIE_ie_key) (Some x))"
    by (simp add: ArteTVEmbedIE_real_extract_def)
  then have "resolve_embed fromisoformat_date download_json parse_query url
           = ArteTVIE_real_extract fromisoformat_date download_json json_url"
    by (simp add: resolve_embed_def url_result_of_def)
  with e real_extract_groups[OF assms(3,4)] show ?thesis by simp
qed

text \<open>The second test URL of \<^verbatim>\<open>ArteTVEmbedIE\<close> and the page of the same video.\<close>

theorem embed_delegates_witness:
  "ArteTVEmbedIE_suitable ''https://www.arte.tv/player/v3/index.php?json_url=https://api.arte.tv/api/player/v2/config/de/100605-013-A'' \<and>
   video_groups ''https://api.arte.tv/api/player/v2/config/de/100605-013-A''
     = Some (Some ''100605-013-A'', Some ''de'') \<and>
   video_groups ''https://www.arte.tv/de/videos/100605-013-A/'' = Some (Some ''100605-013-A'', Some ''de'') \<and>
   resolve_embed (\<lambda>b. Inr b) (\<lambda>u i. Inr doc_two_streams)
       (\<lambda>u. [(''json_url'', [''https://api.arte.tv/api/player/v2/config/de/100605-013-A''])])
       ''https://www.arte.tv/player/v3/index.php?json_url=https://api.arte.tv/api/player/v2/config/de/100605-013-A''
     = ArteTVIE_real_extract (\<lambda>b. Inr b) (\<lambda>u i. Inr doc_two_streams)
         ''https://www.arte.tv/de/videos/100605-013-A/''"
proof -
  have s: "ArteTVEmbedIE_suitable ''https://www.arte.tv/player/v3/index.php?json_url=https://api.arte.tv/api/player/v2/config/de/100605-013-A''"
    by code_simp
  have q: "map_of ((\<lambda>u. [(''json_url'', [''https://api.arte.tv/api/player/v2/config/de/100605-013-A''])])
             ''https://www.arte.tv/player/v3/index.php?json_url=https://api.arte.tv/api/player/v2/config/de/100605-013-A'')
           ''json_url'' = Some (''https://api.arte.tv/api/player/v2/config/de/100605-013-A'' # [])"
    by simp
  have j: "video_groups ''https://api.arte.tv/api/player/v2/config/de/100605-013-A''
     = Some (Some ''100605-013-A'', Some ''de'')"
    by code_simp
  have v: "video_groups ''https://www.arte.tv/de/videos/100605-013-A/'' = Some (Some ''100605-013-A'', Some ''de'')"
    by code_simp
  from embed_delegates[OF s q j v, of "\<lambda>b. Inr b" "\<lambda>u i. Inr doc_two_streams"] s j v
  show ?thesis by simp
qed

text \<open>
  C10, as amended. The resolution of a video needs \<^verbatim>\<open>rights.begin\<close>,
  \<^verbatim>\<open>metadata.providerId\<close>, \<^verbatim>\<open>metadata.title\<close>, \<^verbatim>\<open>metadata.description\<close> and a first
  element of \<^verbatim>\<open>metadata.images\<close> in the attributes object: for every document in which
  the lookup of one of them fails, it raises an error that nothing catches instead of
  returning a dict with the field left empty. The error is that of a failed lookup
  (\<^verbatim>\<open>KeyError\<close>, \<^verbatim>\<open>IndexError\<close>, or \<^verbatim>\<open>TypeError\<close> for a value that cannot be subscripted),
  unless \<^verbatim>\<open>rights.begin\<close> is present and the date parser rejects it: then the parser's
  error is raised first.
\<close>

theorem required_fields_raise:
  assumes "ArteTVIE_suitable url"
    and "attributes_of info = Inr attributes"
    and "failed (field2 attributes ''rights'' ''begin'') \<or>
         failed (field2 attributes ''metadata'' ''providerId'') \<or>
         failed (field2 attributes ''metadata'' ''title'') \<or>
         failed (field2 attributes ''metadata'' ''description'') \<or>
         failed (first_image attributes)"
  shows "\<exists>e. ArteTVIE_real_extract fromisoformat_date (\<lambda>u i. Inr info) url = Inl e \<and>
           (is_lookup_error e \<or>
            (\<exists>b. field2 attributes ''rights'' ''begin'' = Inr b \<and> fromisoformat_date b = Inl e))"
proof -
  from real_extract_fetched[OF assms(1)] obtain video_id where
    "ArteTVIE_real_extract fromisoformat_date (\<lambda>u i. Inr info) url
       = extract_info fromisoformat_date video_id info" by blast
  with extract_info_required[OF assms(2,3), of fromisoformat_date video_id]
  show ?thesis by simp
qed

text \<open>The document with an empty \<^verbatim>\<open>images\<close> list: \<^verbatim>\<open>images[0]\<close> raises \<^verbatim>\<open>IndexError\<close>.\<close>

theorem required_fields_raise_witness:
  "ArteTVIE_suitable ''https://www.arte.tv/en/videos/088501-000-A/'' \<and>
   attributes_of doc_no_images = Inr attributes_no_images \<and>
   failed (first_image attributes_no_images) \<and>
   (\<exists>e. ArteTVIE_real_extract (\<lambda>b. Inr b) (\<lambda>u i. Inr doc_no_images)
          ''https://www.arte.tv/en/videos/088501-000-A/'' = Inl e \<and>
        (is_lookup_error e \<or>
         (\<exists>b. field2 attributes_no_images ''rights'' ''begin'' = Inr b \<and>
              (Inr b :: error + json) = Inl e))) \<and>
   ArteTVIE_real_extract (\<lambda>b. Inr b) (\<lambda>u i. Inr doc_no_images)
     ''https://www.arte.tv/en/videos/088501-000-A/'' = Inl IndexError"
proof -
  have s: "ArteTVIE_suitable ''https://www.arte.tv/en/videos/088501-000-A/''"
    by code_simp
  have a: "attributes_of doc_no_images = Inr attributes_no_images"
    by code_simp
  have m: "failed (first_image attributes_no_images)"
    by code_simp
  have r: "ArteTVIE_real_extract (\<lambda>b. Inr b) (\<lambda>u i. Inr doc_no_images)
     ''https://www.arte.tv/en/videos/088501-000-A/'' = Inl IndexError"
    by code_simp
  from m have "failed (field2 attributes_no_images ''rights'' ''begin'') \<or>
         failed (field2 attributes_no_images ''metadata'' ''providerId'') \<or>
         failed (field2 attributes_no_images ''metadata'' ''title'') \<or>
         failed (field2 attributes_no_images ''metadata'' ''description'') \<or>
         failed (first_image attributes_no_images)" by simp
  from required_fields_raise[OF s a this, of "\<lambda>b. Inr b"] s a m r
  show ?thesis by (intro conjI)
qed

text \<open>
  C10 as stated, with a lookup error in every case, fails: \<^verbatim>\<open>rights.begin\<close> is parsed
  before the metadata is read, so on a document without \<^verbatim>\<open>metadata.title\<close> whose
  \<^verbatim>\<open>rights.begin\<close> is \<^verbatim>\<open>28/06/2019\<close> the resolution raises the \<^verbatim>\<open>ValueError\<close> of the date
  parser, which is no lookup error.
\<close>

theorem required_fields_raise_counterexample:
  "ArteTVIE_suitable ''https://www.arte.tv/en/videos/088501-000-A/'' \<and>
   attributes_of doc_bad_date = Inr attributes_bad_date \<and>
   failed (field2 attributes_bad_date ''metadata'' ''title'') \<and>
   ArteTVIE_real_extract iso_date_prefix (\<lambda>u i. Inr doc_bad_date)
     ''https://www.arte.tv/en/videos/088501-000-A/'' = Inl ValueError \<and>
   \<not> is_lookup_error ValueError"
  by code_simp

end
